theory Spec2Isabelle
  imports Complex_Main
begin

section \<open>Python values\<close>

text \<open>
  A Python/NumPy float is modelled by the real number it denotes, or by one of the three
  special values. Rounding and overflow of finite values are not modelled: the arithmetic
  below is exact on finite values and follows IEEE 754 on the special ones.
\<close>

datatype pyfloat = Fl real | PosInf | NegInf | NaN

fun isfinite :: "pyfloat \<Rightarrow> bool" where
  "isfinite (Fl _) = True"
| "isfinite _ = False"

fun isnan :: "pyfloat \<Rightarrow> bool" where
  "isnan NaN = True"
| "isnan _ = False"

text \<open>The sign of a value that is not NaN: \<open>-1\<close>, \<open>0\<close> or \<open>1\<close>.\<close>

fun fsign :: "pyfloat \<Rightarrow> int" where
  "fsign (Fl a) = (if a < 0 then -1 else if a = 0 then 0 else 1)"
| "fsign PosInf = 1"
| "fsign NegInf = -1"
| "fsign NaN = 0"

fun fneg :: "pyfloat \<Rightarrow> pyfloat" where
  "fneg (Fl a) = Fl (- a)"
| "fneg PosInf = NegInf"
| "fneg NegInf = PosInf"
| "fneg NaN = NaN"

fun fadd :: "pyfloat \<Rightarrow> pyfloat \<Rightarrow> pyfloat" where
  "fadd (Fl a) (Fl b) = Fl (a + b)"
| "fadd NaN _ = NaN"
| "fadd _ NaN = NaN"
| "fadd PosInf NegInf = NaN"
| "fadd NegInf PosInf = NaN"
| "fadd PosInf _ = PosInf"
| "fadd NegInf _ = NegInf"
| "fadd _ PosInf = PosInf"
| "fadd _ NegInf = NegInf"

definition fsub :: "pyfloat \<Rightarrow> pyfloat \<Rightarrow> pyfloat" where
  "fsub a b = fadd a (fneg b)"

fun fmul :: "pyfloat \<Rightarrow> pyfloat \<Rightarrow> pyfloat" where
  "fmul (Fl a) (Fl b) = Fl (a * b)"
| "fmul NaN _ = NaN"
| "fmul _ NaN = NaN"
| "fmul a b =
     (if fsign a * fsign b = 0 then NaN else if fsign a * fsign b > 0 then PosInf else NegInf)"

text \<open>\<open>v ** 2\<close>\<close>

definition fpow2 :: "pyfloat \<Rightarrow> pyfloat" where
  "fpow2 v = fmul v v"

text \<open>\<open>a >= b\<close>: every comparison with NaN is false.\<close>

fun fge :: "pyfloat \<Rightarrow> pyfloat \<Rightarrow> bool" where
  "fge NaN _ = False"
| "fge _ NaN = False"
| "fge (Fl a) (Fl b) = (b \<le> a)"
| "fge PosInf _ = True"
| "fge _ NegInf = True"
| "fge _ _ = False"

text \<open>Truth value of a float in a condition: only zero is false (NaN is true).\<close>

fun truthy :: "pyfloat \<Rightarrow> bool" where
  "truthy (Fl a) = (a \<noteq> 0)"
| "truthy _ = True"

section \<open>Errors\<close>

datatype value_error =
    No_Banks_Column
  | No_Data_For_Bank
  | Not_Enough_History nat
  | Not_Enough_Points nat
  | Length_Mismatch
  | Bad_Float_Literal
  | Non_Finite_To_Int

datatype error =
    ValueError value_error
  | KeyError string
  | NotASeries string
  | ZeroDivisionError
  | OperationalError
  | LibraryError

definition and_then :: "'e + 'a \<Rightarrow> ('a \<Rightarrow> 'e + 'b) \<Rightarrow> 'e + 'b" where
  "and_then m f = (case m of Inl e \<Rightarrow> Inl e | Inr v \<Rightarrow> f v)"

section \<open>Data frames\<close>

text \<open>
  A cell holds a float (a missing value is the float NaN), an integer or a string.
  A frame is its ordered column names and its rows, each row a map from column name to
  cell; rows are addressed by position.
\<close>

datatype cell = PyFloat pyfloat | PyInt int | PyStr string

type_synonym row = "string \<rightharpoonup> cell"

record frame =
  columns :: "string list"
  rows :: "row list"

definition cell_at :: "row \<Rightarrow> string \<Rightarrow> cell" where
  "cell_at r c = (case r c of Some v \<Rightarrow> v | None \<Rightarrow> PyFloat NaN)"

text \<open>\<open>row[c]\<close> for a row of \<open>df.iterrows()\<close>\<close>

definition row_get :: "frame \<Rightarrow> row \<Rightarrow> string \<Rightarrow> error + cell" where
  "row_get df r c = (if c \<in> set (columns df) then Inr (cell_at r c) else Inl (KeyError c))"

text \<open>
  \<open>df[c]\<close> read as a series. After the column names are stripped two columns can carry
  the same name; \<open>df[c]\<close> is then a frame, and every use the source makes of it raises.
\<close>

definition series :: "frame \<Rightarrow> string \<Rightarrow> error + cell list" where
  "series df c =
     (case filter (\<lambda>n. n = c) (columns df) of
        [] \<Rightarrow> Inl (KeyError c)
      | [_] \<Rightarrow> Inr (map (\<lambda>r. cell_at r c) (rows df))
      | _ \<Rightarrow> Inl (NotASeries c))"

text \<open>The column \<open>c\<close> of a frame that a fallible computation returned.\<close>

definition column_of_result :: "error + frame \<Rightarrow> string \<Rightarrow> error + cell list" where
  "column_of_result m c = and_then m (\<lambda>df. series df c)"

text \<open>\<open>df[c] = vals\<close>: an existing column is overwritten in place, a new one is appended.\<close>

definition assign :: "frame \<Rightarrow> string \<Rightarrow> cell list \<Rightarrow> error + frame" where
  "assign df c vals =
     (if length vals \<noteq> length (rows df) then Inl (ValueError Length_Mismatch)
      else Inr \<lparr>columns = (if c \<in> set (columns df) then columns df else columns df @ [c]),
                rows = map2 (\<lambda>r v. r(c \<mapsto> v)) (rows df) vals\<rparr>)"

section \<open>The external libraries\<close>

text \<open>
  SciPy's \<open>minimize\<close>, pmdarima's \<open>auto_arima\<close>, and the string conversions of Python and
  pandas are not part of the repository; they are parameters of the model.
  \<open>auto_arima_predict series n\<close> stands for \<open>auto_arima(series, ...).predict(n_periods=n)\<close>;
  it is \<open>None\<close> when the library raises. \<open>to_numeric_str\<close> is what \<open>pd.to_numeric\<close> with
  \<open>errors="coerce"\<close> makes of a string (NaN if it is no number), \<open>float_of_str\<close> is Python's
  \<open>float\<close> on a string, \<open>str_of_number\<close> is \<open>str\<close> on a number.
  A solver receives the objective, the starting point, the bounds and the constraints
  (\<open>Ineq f\<close> stands for \<open>{"type": "ineq", "fun": f}\<close>, that is \<open>f(x) >= 0\<close>) and returns
  \<open>result.success\<close> and \<open>result.x\<close>.
\<close>

type_synonym point = "pyfloat \<times> pyfloat"

datatype constraint = Ineq "point \<Rightarrow> pyfloat"

type_synonym bound = "pyfloat option \<times> pyfloat option"

record opt_result =
  success :: bool
  result_x :: point

type_synonym solver =
  "(point \<Rightarrow> pyfloat) \<Rightarrow> point \<Rightarrow> bound list \<Rightarrow> constraint list \<Rightarrow> opt_result"

record env =
  minimize :: solver
  float_of_str :: "string \<Rightarrow> pyfloat option"
  to_numeric_str :: "string \<Rightarrow> pyfloat"
  str_of_number :: "cell \<Rightarrow> string"
  auto_arima_predict :: "pyfloat list \<Rightarrow> int \<Rightarrow> pyfloat list option"

text \<open>\<open>float(v)\<close> for a cell: a string is parsed, and a string that is no number raises.\<close>

definition py_float :: "env \<Rightarrow> cell \<Rightarrow> error + pyfloat" where
  "py_float E v =
     (case v of
        PyFloat a \<Rightarrow> Inr a
      | PyInt i \<Rightarrow> Inr (Fl (of_int i))
      | PyStr s \<Rightarrow> (case float_of_str E s of
                     None \<Rightarrow> Inl (ValueError Bad_Float_Literal)
                   | Some a \<Rightarrow> Inr a))"

section \<open>backend.py: optimize_expenditures\<close>

definition objective ::
  "pyfloat \<Rightarrow> pyfloat \<Rightarrow> pyfloat \<Rightarrow> pyfloat \<Rightarrow> pyfloat \<Rightarrow> pyfloat \<Rightarrow> point \<Rightarrow> pyfloat" where
  "objective inflation_rate alpha beta gamma pred_capex pred_opex p =
     (case p of (capex, opex) \<Rightarrow>
        fadd (fmul (fadd (fmul alpha capex) (fmul beta opex)) (fadd (Fl 1) inflation_rate))
             (fmul gamma (fadd (fpow2 (fsub capex pred_capex)) (fpow2 (fsub opex pred_opex)))))"

definition constraints :: "pyfloat \<Rightarrow> pyfloat \<Rightarrow> constraint list" where
  "constraints pred_capex pred_opex =
     [Ineq (\<lambda>p. fsub (fst p) (fmul (Fl 0.8) pred_capex)),
      Ineq (\<lambda>p. fsub (snd p) (fmul (Fl 0.7) pred_opex))]"

definition bounds :: "bound list" where
  "bounds = [(Some (Fl 0), None), (Some (Fl 0), None)]"

text \<open>The call of \<open>minimize\<close> for one forecast year.\<close>

definition solve_row ::
  "env \<Rightarrow> pyfloat \<Rightarrow> pyfloat \<Rightarrow> pyfloat \<Rightarrow> pyfloat \<Rightarrow> pyfloat \<Rightarrow> pyfloat \<Rightarrow> opt_result" where
  "solve_row E inflation_rate alpha beta gamma pred_capex pred_opex =
     minimize E (objective inflation_rate alpha beta gamma pred_capex pred_opex)
       (pred_capex, pred_opex) bounds (constraints pred_capex pred_opex)"

text \<open>\<open>result.success and np.all(np.isfinite(result.x))\<close>\<close>

definition accepted :: "opt_result \<Rightarrow> bool" where
  "accepted result \<longleftrightarrow>
     success result \<and> isfinite (fst (result_x result)) \<and> isfinite (snd (result_x result))"

text \<open>The body of the loop after the two forecast values are read: the optimized point.\<close>

definition optimize_point ::
  "env \<Rightarrow> pyfloat \<Rightarrow> pyfloat \<Rightarrow> pyfloat \<Rightarrow> pyfloat \<Rightarrow> pyfloat \<Rightarrow> pyfloat \<Rightarrow> point" where
  "optimize_point E inflation_rate alpha beta gamma pred_capex pred_opex =
     (let result = solve_row E inflation_rate alpha beta gamma pred_capex pred_opex
      in if accepted result then result_x result
         else (fmul (Fl 0.8) pred_capex, fmul (Fl 0.7) pred_opex))"

text \<open>\<open>pred_capex, pred_opex = float(row['Forecast_CapEx']), float(row['Forecast_OpEx'])\<close>\<close>

definition read_forecast :: "env \<Rightarrow> frame \<Rightarrow> row \<Rightarrow> error + point" where
  "read_forecast E df r =
     and_then (row_get df r ''Forecast_CapEx'') (\<lambda>c1.
     and_then (py_float E c1) (\<lambda>pred_capex.
     and_then (row_get df r ''Forecast_OpEx'') (\<lambda>c2.
     and_then (py_float E c2) (\<lambda>pred_opex.
       Inr (pred_capex, pred_opex)))))"

text \<open>
  The loop over \<open>df.iterrows()\<close>; the result is the two lists \<open>optimized_capex\<close> and
  \<open>optimized_opex\<close>. A missing column or a cell that is no number raises at the first row.
\<close>

fun optimize_loop ::
  "env \<Rightarrow> pyfloat \<Rightarrow> pyfloat \<Rightarrow> pyfloat \<Rightarrow> pyfloat \<Rightarrow> frame \<Rightarrow> row list
     \<Rightarrow> error + (pyfloat list \<times> pyfloat list)" where
  "optimize_loop E inflation_rate alpha beta gamma df [] = Inr ([], [])"
| "optimize_loop E inflation_rate alpha beta gamma df (r # rs) =
     and_then (read_forecast E df r) (\<lambda>(pred_capex, pred_opex).
       (case optimize_point E inflation_rate alpha beta gamma pred_capex pred_opex of
          (capex_opt, opex_opt) \<Rightarrow>
     and_then (optimize_loop E inflation_rate alpha beta gamma df rs)
       (\<lambda>(optimized_capex, optimized_opex).
            Inr (capex_opt # optimized_capex, opex_opt # optimized_opex))))"

definition optimize_expenditures ::
  "env \<Rightarrow> frame \<Rightarrow> pyfloat \<Rightarrow> pyfloat \<Rightarrow> pyfloat \<Rightarrow> pyfloat \<Rightarrow> error + frame" where
  "optimize_expenditures E df inflation_rate alpha beta gamma =
     and_then (optimize_loop E inflation_rate alpha beta gamma df (rows df))
       (\<lambda>(optimized_capex, optimized_opex).
     and_then (assign df ''Optimized_CapEx'' (map PyFloat optimized_capex)) (\<lambda>out1.
       assign out1 ''Optimized_OpEx'' (map PyFloat optimized_opex)))"

subsection \<open>The same function on a store of frames\<close>

text \<open>
  Frames are mutable objects. A store is the list of the frames allocated so far and a
  reference is a position in it. \<open>df.copy()\<close> allocates, \<open>out[c] = vals\<close> updates the
  frame that \<open>out\<close> refers to in place.
\<close>

type_synonym store = "frame list"

definition copy_frame :: "store \<Rightarrow> nat \<Rightarrow> store \<times> nat" where
  "copy_frame h r = (h @ [h ! r], length h)"

definition assign_at :: "store \<Rightarrow> nat \<Rightarrow> string \<Rightarrow> cell list \<Rightarrow> error + store" where
  "assign_at h r c vals = and_then (assign (h ! r) c vals) (\<lambda>f. Inr (h[r := f]))"

definition optimize_expenditures_store ::
  "env \<Rightarrow> store \<Rightarrow> nat \<Rightarrow> pyfloat \<Rightarrow> pyfloat \<Rightarrow> pyfloat \<Rightarrow> pyfloat \<Rightarrow> store \<times> (error + nat)" where
  "optimize_expenditures_store E h df inflation_rate alpha beta gamma =
     (case optimize_loop E inflation_rate alpha beta gamma (h ! df) (rows (h ! df)) of
        Inl e \<Rightarrow> (h, Inl e)
      | Inr (optimized_capex, optimized_opex) \<Rightarrow>
          (case copy_frame h df of (h1, out) \<Rightarrow>
          (case assign_at h1 out ''Optimized_CapEx'' (map PyFloat optimized_capex) of
             Inl e \<Rightarrow> (h1, Inl e)
           | Inr h2 \<Rightarrow>
          (case assign_at h2 out ''Optimized_OpEx'' (map PyFloat optimized_opex) of
             Inl e \<Rightarrow> (h2, Inl e)
           | Inr h3 \<Rightarrow> (h3, Inr out)))))"

section \<open>Strings\<close>

text \<open>\<open>str.strip()\<close> and \<open>str.lower()\<close> on ASCII text.\<close>

definition is_space :: "char \<Rightarrow> bool" where
  "is_space c \<longleftrightarrow> (let n = (of_char c :: nat) in (9 \<le> n \<and> n \<le> 13) \<or> (28 \<le> n \<and> n \<le> 32))"

definition strip :: "string \<Rightarrow> string" where
  "strip s = rev (dropWhile is_space (rev (dropWhile is_space s)))"

definition lower_char :: "char \<Rightarrow> char" where
  "lower_char c = (let n = (of_char c :: nat) in if 65 \<le> n \<and> n \<le> 90 then char_of (n + 32) else c)"

definition lower :: "string \<Rightarrow> string" where
  "lower s = map lower_char s"

section \<open>The pandas operations that run_analysis uses\<close>

text \<open>\<open>pd.isna\<close>\<close>

definition is_missing :: "cell \<Rightarrow> bool" where
  "is_missing v \<longleftrightarrow> v = PyFloat NaN"

text \<open>\<open>Series.ffill()\<close>: a missing cell takes the last cell before it that is not missing.\<close>

fun ffill_from :: "cell option \<Rightarrow> cell list \<Rightarrow> cell list" where
  "ffill_from prev [] = []"
| "ffill_from prev (v # vs) =
     (if is_missing v then (case prev of None \<Rightarrow> v | Some w \<Rightarrow> w) # ffill_from prev vs
      else v # ffill_from (Some v) vs)"

definition ffill :: "cell list \<Rightarrow> cell list" where
  "ffill vs = ffill_from None vs"

text \<open>\<open>pd.to_numeric(v, errors="coerce")\<close> on one cell.\<close>

definition to_numeric :: "env \<Rightarrow> cell \<Rightarrow> pyfloat" where
  "to_numeric E v =
     (case v of PyFloat a \<Rightarrow> a | PyInt i \<Rightarrow> Fl (of_int i) | PyStr s \<Rightarrow> to_numeric_str E s)"

text \<open>\<open>fillna(0)\<close> on one value.\<close>

definition fillna0 :: "pyfloat \<Rightarrow> pyfloat" where
  "fillna0 a = (if isnan a then Fl 0 else a)"

text \<open>\<open>astype(int)\<close> on one cell: truncation towards zero; an infinite value raises.\<close>

definition trunc :: "real \<Rightarrow> int" where
  "trunc a = (if 0 \<le> a then \<lfloor>a\<rfloor> else \<lceil>a\<rceil>)"

definition astype_int :: "cell \<Rightarrow> error + cell" where
  "astype_int v =
     (case v of
        PyInt i \<Rightarrow> Inr (PyInt i)
      | PyFloat (Fl a) \<Rightarrow> Inr (PyInt (trunc a))
      | _ \<Rightarrow> Inl (ValueError Non_Finite_To_Int))"

fun traverse :: "('a \<Rightarrow> error + 'b) \<Rightarrow> 'a list \<Rightarrow> error + 'b list" where
  "traverse f [] = Inr []"
| "traverse f (v # vs) = and_then (f v) (\<lambda>w. and_then (traverse f vs) (\<lambda>ws. Inr (w # ws)))"

text \<open>\<open>astype(str)\<close> on one cell.\<close>

definition astype_str :: "env \<Rightarrow> cell \<Rightarrow> string" where
  "astype_str E v = (case v of PyStr s \<Rightarrow> s | _ \<Rightarrow> str_of_number E v)"

text \<open>The value of a numeric cell, and the integer of a cell of an integer column.\<close>

definition the_float :: "cell \<Rightarrow> pyfloat" where
  "the_float v = (case v of PyFloat a \<Rightarrow> a | PyInt i \<Rightarrow> Fl (of_int i) | PyStr s \<Rightarrow> NaN)"

definition the_int :: "cell \<Rightarrow> int" where
  "the_int v = (case v of PyInt i \<Rightarrow> i | PyFloat (Fl a) \<Rightarrow> trunc a | _ \<Rightarrow> 0)"

text \<open>\<open>df.columns = [col.strip() for col in df.columns]\<close>\<close>

definition strip_columns :: "frame \<Rightarrow> frame" where
  "strip_columns df =
     \<lparr>columns = map strip (columns df),
      rows = map (\<lambda>r k. case filter (\<lambda>c. strip c = k) (columns df) of
                             [c] \<Rightarrow> r c | _ \<Rightarrow> None) (rows df)\<rparr>"

text \<open>\<open>df[mask]\<close>\<close>

definition select_rows :: "frame \<Rightarrow> bool list \<Rightarrow> frame" where
  "select_rows df keep = df\<lparr>rows := map snd (filter fst (zip keep (rows df)))\<rparr>"

text \<open>\<open>df.dropna(subset=[c])\<close>\<close>

definition dropna :: "frame \<Rightarrow> string \<Rightarrow> error + frame" where
  "dropna df c = and_then (series df c) (\<lambda>vs. Inr (select_rows df (map (\<lambda>v. \<not> is_missing v) vs)))"

text \<open>\<open>df.empty\<close>\<close>

definition empty_frame :: "frame \<Rightarrow> bool" where
  "empty_frame df \<longleftrightarrow> rows df = [] \<or> columns df = []"

text \<open>\<open>Series.sum()\<close>: NaN is skipped.\<close>

definition nansum :: "pyfloat list \<Rightarrow> pyfloat" where
  "nansum vs = foldr fadd (filter (\<lambda>v. \<not> isnan v) vs) (Fl 0)"

text \<open>
  \<open>df.groupby('Year', as_index=False).agg({'Capital Expenditure': 'sum',
  'Operating Expenditure': 'sum'})\<close>: one row for each year, in increasing order of the year.
\<close>

definition groupby_sum :: "frame \<Rightarrow> frame" where
  "groupby_sum df =
     \<lparr>columns = [''Year'', ''Capital Expenditure'', ''Operating Expenditure''],
      rows = map (\<lambda>y.
          (let grp = filter (\<lambda>r. the_int (cell_at r ''Year'') = y) (rows df)
           in [''Year'' \<mapsto> PyInt y,
               ''Capital Expenditure'' \<mapsto>
                  PyFloat (nansum (map (\<lambda>r. the_float (cell_at r ''Capital Expenditure'')) grp)),
               ''Operating Expenditure'' \<mapsto>
                  PyFloat (nansum (map (\<lambda>r. the_float (cell_at r ''Operating Expenditure'')) grp))]))
        (sort (remdups (map (\<lambda>r. the_int (cell_at r ''Year'')) (rows df))))\<rparr>"

text \<open>
  \<open>pd.DataFrame({'Year': years, 'Forecast_CapEx': capex, 'Forecast_OpEx': opex})\<close> for a list
  and two series indexed from 0: the index is the longer series, a shorter one is padded
  with NaN, and the list has to be as long as the index.
\<close>

definition padded :: "pyfloat list \<Rightarrow> nat \<Rightarrow> pyfloat" where
  "padded vs k = (if k < length vs then vs ! k else NaN)"

definition pred_frame :: "int list \<Rightarrow> pyfloat list \<Rightarrow> pyfloat list \<Rightarrow> error + frame" where
  "pred_frame years capex opex =
     (if length years \<noteq> max (length capex) (length opex) then Inl (ValueError Length_Mismatch)
      else Inr \<lparr>columns = [''Year'', ''Forecast_CapEx'', ''Forecast_OpEx''],
                rows = map (\<lambda>k. [''Year'' \<mapsto> PyInt (years ! k),
                                  ''Forecast_CapEx'' \<mapsto> PyFloat (padded capex k),
                                  ''Forecast_OpEx'' \<mapsto> PyFloat (padded opex k)])
                         [0 ..< length years]\<rparr>)"

text \<open>The selection of columns by a list of their names.\<close>

definition project :: "frame \<Rightarrow> string list \<Rightarrow> error + frame" where
  "project df cs =
     (case filter (\<lambda>c. c \<notin> set (columns df)) cs of
        c # _ \<Rightarrow> Inl (KeyError c)
      | [] \<Rightarrow> Inr \<lparr>columns = cs, rows = map (\<lambda>r. r |` set cs) (rows df)\<rparr>)"

text \<open>
  \<open>left.merge(right, on=key, how='left')\<close> for frames that share no column but the key:
  every left row, in order, once for each right row with the same key, and once with NaN
  in the right columns when there is none.
\<close>

definition merge_left :: "frame \<Rightarrow> frame \<Rightarrow> string \<Rightarrow> frame" where
  "merge_left left right key =
     (let extra = filter (\<lambda>c. c \<noteq> key) (columns right)
      in \<lparr>columns = columns left @ extra,
          rows = concat (map (\<lambda>l.
                   (case filter (\<lambda>r. cell_at r key = cell_at l key) (rows right) of
                      [] \<Rightarrow> [l ++ (\<lambda>c. if c \<in> set extra then Some (PyFloat NaN) else None)]
                    | ms \<Rightarrow> map (\<lambda>r. l ++ (r |` set extra)) ms))
                 (rows left))\<rparr>)"

text \<open>\<open>df[c].sum()\<close>\<close>

definition column_sum :: "frame \<Rightarrow> string \<Rightarrow> error + pyfloat" where
  "column_sum df c = and_then (series df c) (\<lambda>vs. Inr (nansum (map the_float vs)))"

text \<open>
  \<open>a / b\<close> with Python's rule that a zero divisor raises. (NumPy's float64 returns an
  infinity or NaN with a warning instead; the model takes the stricter rule.)
\<close>

fun py_div :: "pyfloat \<Rightarrow> pyfloat \<Rightarrow> error + pyfloat" where
  "py_div NaN _ = Inr NaN"
| "py_div _ NaN = Inr NaN"
| "py_div a (Fl b) =
     (if b = 0 then Inl ZeroDivisionError
      else (case a of Fl c \<Rightarrow> Inr (Fl (c / b)) | _ \<Rightarrow> Inr (fmul a (Fl (1 / b)))))"
| "py_div (Fl a) _ = Inr (Fl 0)"
| "py_div _ _ = Inr NaN"

section \<open>backend.py: forecast_expenditure\<close>

definition forecast_expenditure :: "env \<Rightarrow> cell list \<Rightarrow> int \<Rightarrow> error + pyfloat list" where
  "forecast_expenditure E series_in periods =
     (let s = filter (\<lambda>v. \<not> isnan v) (map (to_numeric E) series_in)
      in if length s < 3 then Inl (ValueError (Not_Enough_Points (length s)))
         else (case auto_arima_predict E s periods of
                 None \<Rightarrow> Inl LibraryError
               | Some fc \<Rightarrow> Inr fc))"

section \<open>backend.py: generate_recommendations\<close>

text \<open>
  The recommendation text is a fixed template; the model returns the four numbers that
  are interpolated into it.
\<close>

record recommendation_numbers =
  rec_total_savings :: pyfloat
  rec_savings_pct :: pyfloat
  capex_reduction_pct :: pyfloat
  opex_reduction_pct :: pyfloat

definition generate_recommendations :: "frame \<Rightarrow> frame \<Rightarrow> error + recommendation_numbers" where
  "generate_recommendations pred_df opt_df =
     and_then (column_sum pred_df ''Forecast_CapEx'') (\<lambda>pred_capex.
     and_then (column_sum pred_df ''Forecast_OpEx'') (\<lambda>pred_opex.
     and_then (column_sum opt_df ''Optimized_CapEx'') (\<lambda>opt_capex.
     and_then (column_sum opt_df ''Optimized_OpEx'') (\<lambda>opt_opex.
     (let total_forecast = nansum [pred_capex, pred_opex];
          total_optimized = nansum [opt_capex, opt_opex];
          total_savings = fsub total_forecast total_optimized
      in
     and_then (if truthy total_forecast
               then and_then (py_div total_savings total_forecast) (\<lambda>q. Inr (fmul q (Fl 100)))
               else Inr (Fl 0)) (\<lambda>savings_pct.
     and_then (if truthy pred_capex
               then and_then (py_div opt_capex pred_capex) (\<lambda>q. Inr (fmul (fsub (Fl 1) q) (Fl 100)))
               else Inr (Fl 0)) (\<lambda>capex_pct.
     and_then (if truthy pred_opex
               then and_then (py_div opt_opex pred_opex) (\<lambda>q. Inr (fmul (fsub (Fl 1) q) (Fl 100)))
               else Inr (Fl 0)) (\<lambda>opex_pct.
       Inr \<lparr>rec_total_savings = total_savings, rec_savings_pct = savings_pct,
            capex_reduction_pct = capex_pct, opex_reduction_pct = opex_pct\<rparr>))))))))"

section \<open>backend.py: run_analysis\<close>

text \<open>
  The model starts from the frame that \<open>pd.read_excel\<close> returned and ends with the returned
  dictionary; writing the spreadsheet, the chart and the PDF is outside the model.
\<close>

text \<open>
  \<open>df['Year'] = pd.to_numeric(df['Year'].ffill(), errors='coerce')\<close>,
  \<open>df.dropna(subset=['Year'], inplace=True)\<close> and \<open>df['Year'] = df['Year'].astype(int)\<close>
\<close>

definition clean_years :: "env \<Rightarrow> frame \<Rightarrow> error + frame" where
  "clean_years E df =
     and_then (series df ''Year'') (\<lambda>year.
     and_then (assign df ''Year'' (map (\<lambda>v. PyFloat (to_numeric E v)) (ffill year))) (\<lambda>df1.
     and_then (dropna df1 ''Year'') (\<lambda>df2.
     and_then (series df2 ''Year'') (\<lambda>year2.
     and_then (traverse astype_int year2) (\<lambda>year3.
       assign df2 ''Year'' year3)))))"

text \<open>The rows of the selected bank; none is an error.\<close>

definition matches_bank :: "env \<Rightarrow> string \<Rightarrow> cell \<Rightarrow> bool" where
  "matches_bank E bank_name v \<longleftrightarrow> lower (strip (astype_str E v)) = lower (strip bank_name)"

definition select_bank :: "env \<Rightarrow> frame \<Rightarrow> string \<Rightarrow> error + frame" where
  "select_bank E df bank_name =
     and_then (series df ''Banks'') (\<lambda>banks.
       (let bank_df = select_rows df (map (matches_bank E bank_name) banks)
        in if empty_frame bank_df then Inl (ValueError No_Data_For_Bank) else Inr bank_df))"

text \<open>The rows up to \<open>current_year - 1\<close>, the two expenditure columns made numeric, and the
  grouping.\<close>

definition history :: "env \<Rightarrow> frame \<Rightarrow> int \<Rightarrow> error + frame" where
  "history E bank_df current_year =
     (let max_year_for_forecast = current_year - 1 in
      and_then (series bank_df ''Year'') (\<lambda>year.
      (let historical_df = select_rows bank_df
             (map (\<lambda>v. the_int v \<le> max_year_for_forecast) year) in
      and_then (series historical_df ''Capital Expenditure'') (\<lambda>capex.
      and_then (assign historical_df ''Capital Expenditure''
                  (map (\<lambda>v. PyFloat (fillna0 (to_numeric E v))) capex)) (\<lambda>historical_df1.
      and_then (series historical_df1 ''Operating Expenditure'') (\<lambda>opex.
      and_then (assign historical_df1 ''Operating Expenditure''
                  (map (\<lambda>v. PyFloat (fillna0 (to_numeric E v))) opex)) (\<lambda>historical_df2.
        Inr (groupby_sum historical_df2))))))))"

text \<open>Data loading and cleaning, up to \<open>grouped\<close>.\<close>

definition group_history :: "env \<Rightarrow> frame \<Rightarrow> string \<Rightarrow> int \<Rightarrow> error + frame" where
  "group_history E df0 bank_name current_year =
     (let df = strip_columns df0 in
      if ''Banks'' \<notin> set (columns df) then Inl (ValueError No_Banks_Column) else
      and_then (clean_years E df) (\<lambda>df1.
      and_then (select_bank E df1 bank_name) (\<lambda>bank_df.
        history E bank_df current_year)))"

text \<open>The length check and the forecasts, up to \<open>pred_df\<close>.\<close>

definition forecast_frame :: "env \<Rightarrow> frame \<Rightarrow> int \<Rightarrow> error + frame" where
  "forecast_frame E grouped forecast_years =
     (if length (rows grouped) < 3
      then Inl (ValueError (Not_Enough_History (length (rows grouped)))) else
      and_then (series grouped ''Year'') (\<lambda>year.
      (let last_historical_year = Max (set (map the_int year));
           start_year = last_historical_year + 1;
           forecast_years_list = [start_year .. start_year + forecast_years - 1] in
       and_then (series grouped ''Capital Expenditure'') (\<lambda>capex.
       and_then (forecast_expenditure E capex forecast_years) (\<lambda>capex_forecast.
       and_then (series grouped ''Operating Expenditure'') (\<lambda>opex.
       and_then (forecast_expenditure E opex forecast_years) (\<lambda>opex_forecast.
         pred_frame forecast_years_list capex_forecast opex_forecast)))))))"

text \<open>The optimization with its default weights, and the merge, up to \<open>full_df\<close>.\<close>

definition combine :: "env \<Rightarrow> frame \<Rightarrow> error + frame" where
  "combine E pred_df =
     and_then (optimize_expenditures E pred_df (Fl 0.03) (Fl 0.5) (Fl 0.5) (Fl 0.001))
       (\<lambda>optimized_df.
     and_then (project optimized_df [''Year'', ''Optimized_CapEx'', ''Optimized_OpEx''])
       (\<lambda>right. Inr (merge_left pred_df right ''Year'')))"

record kpi =
  total_savings :: pyfloat
  savings_pct :: pyfloat
  total_forecast :: pyfloat
  total_optimized :: pyfloat

text \<open>The metrics of the returned dictionary.\<close>

definition metrics :: "frame \<Rightarrow> error + kpi" where
  "metrics full_df =
     and_then (column_sum full_df ''Forecast_CapEx'') (\<lambda>total_forecast_capex.
     and_then (column_sum full_df ''Forecast_OpEx'') (\<lambda>total_forecast_opex.
     and_then (column_sum full_df ''Optimized_CapEx'') (\<lambda>total_optimized_capex.
     and_then (column_sum full_df ''Optimized_OpEx'') (\<lambda>total_optimized_opex.
     (let savings = fsub (fadd total_forecast_capex total_forecast_opex)
                         (fadd total_optimized_capex total_optimized_opex);
          forecast = fadd total_forecast_capex total_forecast_opex;
          optimized = fadd total_optimized_capex total_optimized_opex
      in
     and_then (if truthy forecast
               then and_then (py_div savings forecast) (\<lambda>q. Inr (fmul q (Fl 100)))
               else Inr (Fl 0)) (\<lambda>pct.
       Inr \<lparr>total_savings = savings, savings_pct = pct,
            total_forecast = forecast, total_optimized = optimized\<rparr>))))))"

record analysis =
  combined_df :: frame
  kpi_metrics :: kpi
  recommendations :: recommendation_numbers

definition run_analysis :: "env \<Rightarrow> frame \<Rightarrow> string \<Rightarrow> int \<Rightarrow> int \<Rightarrow> error + analysis" where
  "run_analysis E df bank_name forecast_years current_year =
     and_then (group_history E df bank_name current_year) (\<lambda>grouped.
     and_then (forecast_frame E grouped forecast_years) (\<lambda>pred_df.
     and_then (combine E pred_df) (\<lambda>full_df.
     and_then (metrics full_df) (\<lambda>k.
     and_then (generate_recommendations pred_df full_df) (\<lambda>recs.
       Inr \<lparr>combined_df = full_df, kpi_metrics = k, recommendations = recs\<rparr>)))))"

section \<open>database.py\<close>

text \<open>
  The database file holds the table \<open>users\<close> or does not hold it yet. The table is its rows
  and the counter that \<open>AUTOINCREMENT\<close> keeps; \<open>username\<close> is \<open>UNIQUE\<close>.
\<close>

record user_row =
  user_id :: nat
  username :: string
  password_hash :: string

record users_table =
  user_rows :: "user_row list"
  seq :: nat

type_synonym database = "users_table option"

definition setup_database :: "database \<Rightarrow> database" where
  "setup_database db = (case db of None \<Rightarrow> Some \<lparr>user_rows = [], seq = 0\<rparr> | Some t \<Rightarrow> Some t)"

text \<open>
  The result is the new database and \<open>user_id\<close>: \<open>Inr None\<close> when the insertion raised
  \<open>IntegrityError\<close>, an error when the table does not exist (that exception is not caught).
\<close>

definition add_user :: "database \<Rightarrow> string \<Rightarrow> string \<Rightarrow> database \<times> (error + nat option)" where
  "add_user db name hash =
     (case db of
        None \<Rightarrow> (db, Inl OperationalError)
      | Some t \<Rightarrow>
          if name \<in> set (map username (user_rows t)) then (db, Inr None)
          else (let new_id = Suc (fold max (map user_id (user_rows t)) (seq t))
                in (Some \<lparr>user_rows = user_rows t @
                              [\<lparr>user_id = new_id, username = name, password_hash = hash\<rparr>],
                           seq = new_id\<rparr>,
                    Inr (Some new_id))))"

definition check_user :: "database \<Rightarrow> string \<Rightarrow> string option" where
  "check_user db name =
     (case db of
        None \<Rightarrow> None
      | Some t \<Rightarrow> (case filter (\<lambda>r. username r = name) (user_rows t) of
                     [] \<Rightarrow> None
                   | r # _ \<Rightarrow> Some (password_hash r)))"

section \<open>Auxiliary notions for the statements\<close>

subsection \<open>Feasible points, and a solver call that is no worse than its start\<close>

text \<open>A point is feasible when it lies within the bounds and every constraint function is
  \<open>>= 0\<close> at it.\<close>

definition in_bound :: "bound \<Rightarrow> pyfloat \<Rightarrow> bool" where
  "in_bound b v \<longleftrightarrow>
     (case fst b of None \<Rightarrow> True | Some lo \<Rightarrow> fge v lo) \<and>
     (case snd b of None \<Rightarrow> True | Some hi \<Rightarrow> fge hi v)"

fun satisfies :: "constraint \<Rightarrow> point \<Rightarrow> bool" where
  "satisfies (Ineq f) p = fge (f p) (Fl 0)"

fun in_bounds :: "bound list \<Rightarrow> point \<Rightarrow> bool" where
  "in_bounds [b0, b1] p = (in_bound b0 (fst p) \<and> in_bound b1 (snd p))"
| "in_bounds _ p = False"

definition feasible :: "bound list \<Rightarrow> constraint list \<Rightarrow> point \<Rightarrow> bool" where
  "feasible bs cs p \<longleftrightarrow> in_bounds bs p \<and> list_all (\<lambda>c. satisfies c p) cs"

text \<open>
  The solver call of one row starts at the forecast. This says that the point the code takes
  from that call, if it takes one, has no larger objective value than the forecast itself.
\<close>

definition no_worse_than_forecast ::
  "env \<Rightarrow> pyfloat \<Rightarrow> pyfloat \<Rightarrow> pyfloat \<Rightarrow> pyfloat \<Rightarrow> pyfloat \<Rightarrow> pyfloat \<Rightarrow> bool" where
  "no_worse_than_forecast E i a b g pc po \<longleftrightarrow>
     (accepted (solve_row E i a b g pc po) \<longrightarrow>
        fge (objective i a b g pc po (pc, po))
            (objective i a b g pc po (result_x (solve_row E i a b g pc po))))"

text \<open>The column names of a frame after \<open>df[c] = ...\<close>.\<close>

definition with_column :: "string list \<Rightarrow> string \<Rightarrow> string list" where
  "with_column cs c = (if c \<in> set cs then cs else cs @ [c])"

text \<open>
  The input contract of \<open>run_analysis\<close>: after the column names are stripped, each of the
  four columns occurs once.
\<close>

definition has_column :: "frame \<Rightarrow> string \<Rightarrow> bool" where
  "has_column df c \<longleftrightarrow> filter (\<lambda>n. n = c) (columns df) = [c]"

definition input_contract :: "frame \<Rightarrow> bool" where
  "input_contract df0 \<longleftrightarrow>
     has_column (strip_columns df0) ''Banks'' \<and> has_column (strip_columns df0) ''Year'' \<and>
     has_column (strip_columns df0) ''Capital Expenditure'' \<and>
     has_column (strip_columns df0) ''Operating Expenditure''"

text \<open>
  The sheet read row by row: the bank cell, the year (forward-filled, then coerced to a
  number), and the two expenditures (coerced to numbers).
\<close>

type_synonym sheet_record = "cell \<times> pyfloat \<times> pyfloat \<times> pyfloat"

definition numeric_years :: "env \<Rightarrow> frame \<Rightarrow> pyfloat list" where
  "numeric_years E df = map (to_numeric E) (ffill (map (\<lambda>r. cell_at r ''Year'') (rows df)))"

definition sheet_records :: "env \<Rightarrow> frame \<Rightarrow> sheet_record list" where
  "sheet_records E df0 =
     (let df = strip_columns df0
      in map2 (\<lambda>r y. (cell_at r ''Banks'', y,
                       to_numeric E (cell_at r ''Capital Expenditure''),
                       to_numeric E (cell_at r ''Operating Expenditure'')))
           (rows df) (numeric_years E df))"

definition rec_bank :: "sheet_record \<Rightarrow> cell" where
  "rec_bank rc = fst rc"

definition rec_year :: "sheet_record \<Rightarrow> pyfloat" where
  "rec_year rc = fst (snd rc)"

definition rec_capex :: "sheet_record \<Rightarrow> pyfloat" where
  "rec_capex rc = fst (snd (snd rc))"

definition rec_opex :: "sheet_record \<Rightarrow> pyfloat" where
  "rec_opex rc = snd (snd (snd rc))"

text \<open>The year of a record as an integer (truncated).\<close>

definition year_int :: "sheet_record \<Rightarrow> int" where
  "year_int rc = the_int (PyFloat (rec_year rc))"

text \<open>The records of the selected bank that have a year.\<close>

definition bank_records :: "env \<Rightarrow> frame \<Rightarrow> string \<Rightarrow> sheet_record list" where
  "bank_records E df0 bank_name =
     filter (\<lambda>rc. isfinite (rec_year rc) \<and> matches_bank E bank_name (rec_bank rc))
       (sheet_records E df0)"

text \<open>Those of them that are history: the year is at most \<open>current_year - 1\<close>.\<close>

definition historical_records :: "env \<Rightarrow> frame \<Rightarrow> string \<Rightarrow> int \<Rightarrow> sheet_record list" where
  "historical_records E df0 bank_name current_year =
     filter (\<lambda>rc. year_int rc \<le> current_year - 1) (bank_records E df0 bank_name)"

text \<open>The distinct historical years of the selected bank, in increasing order.\<close>

definition historical_years :: "env \<Rightarrow> frame \<Rightarrow> string \<Rightarrow> int \<Rightarrow> int list" where
  "historical_years E df0 bank_name current_year =
     sort (remdups (map year_int (historical_records E df0 bank_name current_year)))"

text \<open>
  The grouped table in terms of the records: one row for each historical year, with the
  sums of the two expenditures over the records of that year.
\<close>

definition grouped_by_year :: "env \<Rightarrow> frame \<Rightarrow> string \<Rightarrow> int \<Rightarrow> frame" where
  "grouped_by_year E df0 bank_name current_year =
     \<lparr>columns = [''Year'', ''Capital Expenditure'', ''Operating Expenditure''],
      rows = map (\<lambda>y.
          (let grp = filter (\<lambda>rc. year_int rc = y)
                       (historical_records E df0 bank_name current_year)
           in [''Year'' \<mapsto> PyInt y,
               ''Capital Expenditure'' \<mapsto> PyFloat (nansum (map rec_capex grp)),
               ''Operating Expenditure'' \<mapsto> PyFloat (nansum (map rec_opex grp))]))
        (historical_years E df0 bank_name current_year)\<rparr>"

text \<open>
  The cleaning as the specification words it: the Year column forward-filled and coerced
  to numeric, the rows without a numeric year dropped, the rows of the selected bank
  kept, the expenditures coerced to numeric, and the result grouped by year with the two
  expenditures summed. A group is its year and the two sums.
\<close>

definition spec_groups :: "env \<Rightarrow> frame \<Rightarrow> string \<Rightarrow> (pyfloat \<times> pyfloat \<times> pyfloat) list" where
  "spec_groups E df0 bank_name =
     map (\<lambda>y.
         (let grp = filter (\<lambda>rc. rec_year rc = y) (bank_records E df0 bank_name)
          in (y, nansum (map rec_capex grp), nansum (map rec_opex grp))))
       (remdups (map rec_year (bank_records E df0 bank_name)))"

text \<open>The groups of a grouped frame, in the same form.\<close>

definition frame_groups :: "error + frame \<Rightarrow> error + (pyfloat \<times> pyfloat \<times> pyfloat) list" where
  "frame_groups m =
     and_then m (\<lambda>g. Inr (map (\<lambda>r. (the_float (cell_at r ''Year''),
                                      the_float (cell_at r ''Capital Expenditure''),
                                      the_float (cell_at r ''Operating Expenditure''))) (rows g)))"

text \<open>The rows of a frame that have a year, each with its numeric year.\<close>

definition year_rows :: "env \<Rightarrow> frame \<Rightarrow> (row \<times> pyfloat) list" where
  "year_rows E df = filter (\<lambda>z. \<not> isnan (snd z)) (zip (rows df) (numeric_years E df))"

text \<open>The record of a row and its numeric year.\<close>

definition record_of :: "env \<Rightarrow> row \<times> pyfloat \<Rightarrow> sheet_record" where
  "record_of E z = (cell_at (fst z) ''Banks'', snd z,
                    to_numeric E (cell_at (fst z) ''Capital Expenditure''),
                    to_numeric E (cell_at (fst z) ''Operating Expenditure''))"

text \<open>The row after the two expenditure columns are made numeric.\<close>

definition numeric_row :: "env \<Rightarrow> row \<Rightarrow> row" where
  "numeric_row E r =
     r(''Capital Expenditure'' \<mapsto> PyFloat (fillna0 (to_numeric E (cell_at r ''Capital Expenditure''))),
       ''Operating Expenditure'' \<mapsto> PyFloat (fillna0 (to_numeric E (cell_at r ''Operating Expenditure''))))"

text \<open>A row of \<open>pred_df\<close> and the row of \<open>full_df\<close> that comes of it.\<close>

definition pred_row :: "int \<times> pyfloat \<times> pyfloat \<Rightarrow> row" where
  "pred_row t = [''Year'' \<mapsto> PyInt (fst t), ''Forecast_CapEx'' \<mapsto> PyFloat (fst (snd t)),
                 ''Forecast_OpEx'' \<mapsto> PyFloat (snd (snd t))]"

definition full_row ::
  "env \<Rightarrow> pyfloat \<Rightarrow> pyfloat \<Rightarrow> pyfloat \<Rightarrow> pyfloat \<Rightarrow> int \<times> pyfloat \<times> pyfloat \<Rightarrow> row" where
  "full_row E inflation_rate alpha beta gamma t =
     (pred_row t)
       (''Optimized_CapEx'' \<mapsto>
          PyFloat (fst (optimize_point E inflation_rate alpha beta gamma (fst (snd t)) (snd (snd t)))),
        ''Optimized_OpEx'' \<mapsto>
          PyFloat (snd (optimize_point E inflation_rate alpha beta gamma (fst (snd t)) (snd (snd t)))))"

text \<open>The real number of a finite float.\<close>

definition real_of :: "pyfloat \<Rightarrow> real" where
  "real_of v = (case v of Fl a \<Rightarrow> a | _ \<Rightarrow> 0)"

text \<open>The column \<open>c\<close> of the frame that a computation on a store returned.\<close>

definition stored_column :: "store \<times> (error + nat) \<Rightarrow> string \<Rightarrow> error + cell list" where
  "stored_column res c = (case snd res of Inl e \<Rightarrow> Inl e | Inr out \<Rightarrow> series (fst res ! out) c)"

section \<open>Concrete inputs\<close>

subsection \<open>Concrete solvers\<close>

text \<open>A solver that never converges, and one that proposes nine tenths of the starting
  point and reports success only if that point is feasible and no worse.\<close>

definition failing_solver :: solver where
  "failing_solver f x0 bs cs = \<lparr>success = False, result_x = x0\<rparr>"

definition shrinking_solver :: solver where
  "shrinking_solver f x0 bs cs =
     (let cand = (fmul (Fl 0.9) (fst x0), fmul (Fl 0.9) (snd x0))
      in if feasible bs cs cand \<and> fge (f x0) (f cand)
         then \<lparr>success = True, result_x = cand\<rparr>
         else \<lparr>success = False, result_x = x0\<rparr>)"

text \<open>
  A solver that reports the lowest point that the bounds and the two floors allow, the
  floors taken from the starting point, which \<open>optimize_expenditures\<close> sets to the forecast.
  For the default parameters and forecasts up to \<open>1287.5\<close> and \<open>858\<close> this point is the
  constrained minimum of the objective (lemma \<open>corner_is_minimum\<close> below).
\<close>

definition corner_solver :: solver where
  "corner_solver f x0 bs cs =
     (if isfinite (fst x0) \<and> isfinite (snd x0)
      then \<lparr>success = True,
            result_x = (if fge (fmul (Fl 0.8) (fst x0)) (Fl 0) then fmul (Fl 0.8) (fst x0) else Fl 0,
                        if fge (fmul (Fl 0.7) (snd x0)) (Fl 0) then fmul (Fl 0.7) (snd x0) else Fl 0)\<rparr>
      else \<lparr>success = False, result_x = x0\<rparr>)"


text \<open>A forecaster that predicts the mean of the series for every future year.\<close>

definition mean_forecaster :: "pyfloat list \<Rightarrow> int \<Rightarrow> pyfloat list option" where
  "mean_forecaster s n =
     (if n < 1 then None
      else Some (replicate (nat n) (fmul (nansum s) (Fl (1 / real (length s))))))"

definition demo_env :: env where
  "demo_env = \<lparr>minimize = shrinking_solver, float_of_str = (\<lambda>_. None),
     to_numeric_str = (\<lambda>_. NaN), str_of_number = (\<lambda>_. []),
     auto_arima_predict = mean_forecaster\<rparr>"

definition failing_env :: env where
  "failing_env = demo_env\<lparr>minimize := failing_solver\<rparr>"

definition corner_env :: env where
  "corner_env = demo_env\<lparr>minimize := corner_solver\<rparr>"


definition forecast_row :: "int \<Rightarrow> real \<Rightarrow> real \<Rightarrow> row" where
  "forecast_row y c ox = [''Year'' \<mapsto> PyInt y, ''Forecast_CapEx'' \<mapsto> PyFloat (Fl c),
      ''Forecast_OpEx'' \<mapsto> PyFloat (Fl ox)]"

definition demo_forecast :: frame where
  "demo_forecast = \<lparr>columns = [''Year'', ''Forecast_CapEx'', ''Forecast_OpEx''],
     rows = [forecast_row 2024 100 200, forecast_row 2025 (-100) 50]\<rparr>"


text \<open>A forecast frame that already has a column \<open>Optimized_CapEx\<close>.\<close>

definition stale_forecast :: frame where
  "stale_forecast = \<lparr>columns = [''Optimized_CapEx'', ''Forecast_CapEx'', ''Forecast_OpEx''],
     rows = [ [''Optimized_CapEx'' \<mapsto> PyFloat (Fl 999), ''Forecast_CapEx'' \<mapsto> PyFloat (Fl 100),
              ''Forecast_OpEx'' \<mapsto> PyFloat (Fl 200)] ]\<rparr>"

text \<open>A combined table whose forecast and optimized values are all zero.\<close>

definition zero_frame :: frame where
  "zero_frame = \<lparr>columns = [''Year'', ''Forecast_CapEx'', ''Forecast_OpEx'',
       ''Optimized_CapEx'', ''Optimized_OpEx''],
     rows = [ [''Year'' \<mapsto> PyInt 2025, ''Forecast_CapEx'' \<mapsto> PyFloat (Fl 0),
              ''Forecast_OpEx'' \<mapsto> PyFloat (Fl 0), ''Optimized_CapEx'' \<mapsto> PyFloat (Fl 0),
              ''Optimized_OpEx'' \<mapsto> PyFloat (Fl 0)] ]\<rparr>"

text \<open>
  A sheet with two banks. The column name \<open>Year\<close> has a trailing blank, the second row has
  an empty year cell, one expenditure is text, and one row lies in the future.
\<close>

definition sheet_row :: "string \<Rightarrow> cell \<Rightarrow> cell \<Rightarrow> cell \<Rightarrow> row" where
  "sheet_row b y c ox = [''Banks'' \<mapsto> PyStr b, ''Year '' \<mapsto> y,
      ''Capital Expenditure'' \<mapsto> c, ''Operating Expenditure'' \<mapsto> ox]"

definition demo_sheet :: frame where
  "demo_sheet = \<lparr>columns = [''Banks'', ''Year '', ''Capital Expenditure'', ''Operating Expenditure''],
     rows = [sheet_row ''HDFC '' (PyInt 2019) (PyInt 100) (PyInt 200),
             sheet_row ''hdfc'' (PyFloat NaN) (PyInt 50) (PyStr ''n/a''),
             sheet_row ''SBI'' (PyInt 2020) (PyInt 1) (PyInt 1),
             sheet_row ''HDFC'' (PyInt 2020) (PyInt 120) (PyInt 220),
             sheet_row ''HDFC'' (PyInt 2021) (PyInt 150) (PyInt 240),
             sheet_row ''HDFC'' (PyInt 2030) (PyInt 1) (PyInt 1)]\<rparr>"

text \<open>A sheet whose capital expenditure is negative in every year.\<close>

definition credit_sheet :: frame where
  "credit_sheet = \<lparr>columns = [''Banks'', ''Year '', ''Capital Expenditure'', ''Operating Expenditure''],
     rows = [sheet_row ''HDFC'' (PyInt 2019) (PyInt (- 100)) (PyInt 50),
             sheet_row ''HDFC'' (PyInt 2020) (PyInt (- 100)) (PyInt 50),
             sheet_row ''HDFC'' (PyInt 2021) (PyInt (- 100)) (PyInt 50)]\<rparr>"

definition demo_db :: database where
  "demo_db = Some \<lparr>user_rows =
       [\<lparr>user_id = 1, username = ''ann@gmail.com'', password_hash = ''hash-1''\<rparr>], seq = 1\<rparr>"

section \<open>Lemmas\<close>

subsection \<open>Sequencing of fallible steps\<close>

lemma and_then_Inl [simp]: "and_then (Inl e) f = Inl e"
  by (simp add: and_then_def)

lemma and_then_Inr [simp]: "and_then (Inr v) f = f v"
  by (simp add: and_then_def)

lemma and_then_eq_Inr: "and_then m f = Inr y \<longleftrightarrow> (\<exists>v. m = Inr v \<and> f v = Inr y)"
  by (cases m) simp_all

lemma and_then_eq_Inl: "and_then m f = Inl e \<longleftrightarrow> m = Inl e \<or> (\<exists>v. m = Inr v \<and> f v = Inl e)"
  by (cases m) simp_all

lemma traverse_Inr: "traverse f xs = Inr ys \<longleftrightarrow> map f xs = map Inr ys"
proof (induction xs arbitrary: ys)
  case Nil
  show ?case by auto
next
  case (Cons x xs)
  show ?case
  proof (cases ys)
    case Nil
    then show ?thesis by (auto simp: and_then_eq_Inr)
  next
    case (Cons y ys')
    with Cons.IH [of ys'] show ?thesis by (auto simp: and_then_eq_Inr)
  qed
qed

lemma traverse_Inl: "traverse f xs = Inl e \<Longrightarrow> \<exists>x \<in> set xs. f x = Inl e"
  by (induction xs) (auto simp: and_then_eq_Inl)

lemma traverse_total:
  "(\<forall>x \<in> set xs. f x = Inr (g x)) \<Longrightarrow> traverse f xs = Inr (map g xs)"
  by (induction xs) auto

lemma readable_rows:
  "(\<forall>r \<in> set rs. \<exists>p. f r = Inr p) \<Longrightarrow> \<exists>ps. map f rs = map Inr ps"
proof (induction rs)
  case Nil
  show ?case by simp
next
  case (Cons r rs)
  then obtain p ps where "f r = Inr p" "map f rs = map Inr ps" by auto
  then have "map f (r # rs) = map Inr (p # ps)" by simp
  then show ?case by blast
qed

subsection \<open>Floats\<close>

lemma fadd_zero_left [simp]: "fadd (Fl 0) v = v"
  by (cases v) simp_all

lemma isfinite_not_nan: "isfinite v \<Longrightarrow> \<not> isnan v"
  by (cases v) simp_all

lemma constraint_floor_iff: "isfinite v \<Longrightarrow> fge (fsub v q) (Fl 0) \<longleftrightarrow> fge v q"
  by (cases v; cases q) (auto simp: fsub_def)



lemma floor_finite: "isfinite v \<Longrightarrow> isfinite (fmul (Fl c) v)"
  by (cases v) auto

lemma nansum_Cons:
  "nansum (v # vs) = (if isnan v then nansum vs else fadd v (nansum vs))"
  by (simp add: nansum_def)

lemma nansum_Nil [simp]: "nansum [] = Fl 0"
  by (simp add: nansum_def)

lemma nansum_fillna0: "nansum (map (\<lambda>z. fillna0 (f z)) zs) = nansum (map f zs)"
  by (induction zs) (auto simp: nansum_Cons fillna0_def)

lemma real_of_Fl [simp]: "real_of (Fl a) = a"
  by (simp add: real_of_def)

lemma nansum_finite:
  "list_all isfinite vs \<Longrightarrow> nansum vs = Fl (sum_list (map real_of vs))"
proof (induction vs)
  case Nil
  show ?case by simp
next
  case (Cons v vs)
  then obtain a where "v = Fl a" by (cases v) auto
  with Cons show ?case by (simp add: nansum_Cons)
qed

lemma py_div_truthy: "truthy d \<Longrightarrow> \<exists>q. py_div n d = Inr q"
  by (cases n; cases d) auto

lemma guarded_Inr:
  "\<exists>v. (if truthy d then and_then (py_div n d) (\<lambda>q. Inr (f q)) else Inr (Fl 0)) = Inr v"
  using py_div_truthy [of d n] by auto

subsection \<open>Frames\<close>

lemma filter_singleton_eq: "filter (\<lambda>n. n = c) cs = [x] \<Longrightarrow> x = c"
proof -
  assume "filter (\<lambda>n. n = c) cs = [x]"
  then have "x \<in> set (filter (\<lambda>n. n = c) cs)" by simp
  then show "x = c" by simp
qed

lemma series_Inr_iff:
  "series df c = Inr vs \<longleftrightarrow> has_column df c \<and> vs = map (\<lambda>r. cell_at r c) (rows df)"
  by (auto simp: series_def has_column_def split: list.splits dest: filter_singleton_eq)

lemma series_has_column:
  "has_column df c \<Longrightarrow> series df c = Inr (map (\<lambda>r. cell_at r c) (rows df))"
  by (simp add: series_Inr_iff)

lemma series_Inl:
  "series df c = Inl e \<Longrightarrow> \<not> has_column df c \<and> (e = KeyError c \<or> e = NotASeries c)"
  by (auto simp: series_def has_column_def split: list.splits)

lemma series_cases:
  "(has_column df c \<and> series df c = Inr (map (\<lambda>r. cell_at r c) (rows df))) \<or>
   (\<not> has_column df c \<and> (series df c = Inl (KeyError c) \<or> series df c = Inl (NotASeries c)))"
  by (cases "series df c") (auto simp: series_Inr_iff dest: series_Inl)

lemma has_column_mem: "has_column df c \<Longrightarrow> c \<in> set (columns df)"
proof -
  assume "has_column df c"
  then have "c \<in> set (filter (\<lambda>n. n = c) (columns df))" by (simp add: has_column_def)
  then show ?thesis by simp
qed

lemma has_column_nonempty: "has_column df c \<Longrightarrow> columns df \<noteq> []"
  using has_column_mem by fastforce

lemma has_column_rows [simp]: "has_column (df\<lparr>rows := rs\<rparr>) c = has_column df c"
  by (simp add: has_column_def)

lemma assign_existing:
  "has_column df c \<Longrightarrow> length vals = length (rows df) \<Longrightarrow>
     assign df c vals = Inr (df\<lparr>rows := map2 (\<lambda>r v. r(c \<mapsto> v)) (rows df) vals\<rparr>)"
  by (simp add: assign_def has_column_mem)

lemma masked_rows: "map snd (filter fst (zip (map p xs) xs)) = filter p xs"
  by (induction xs) auto

lemma select_rows_series:
  "select_rows df (map p (map (\<lambda>r. cell_at r c) (rows df)))
     = df\<lparr>rows := filter (\<lambda>r. p (cell_at r c)) (rows df)\<rparr>"
proof -
  have "map p (map (\<lambda>r. cell_at r c) (rows df)) = map (\<lambda>r. p (cell_at r c)) (rows df)"
    by simp
  then show ?thesis
    by (simp only: select_rows_def masked_rows)
qed

lemma dropna_eq:
  assumes "has_column df c"
  shows "dropna df c = Inr (df\<lparr>rows := filter (\<lambda>r. \<not> is_missing (cell_at r c)) (rows df)\<rparr>)"
  unfolding dropna_def series_has_column [OF assms]
  by (simp only: and_then_Inr select_rows_series)

lemma map2_same: "map2 h (map f zs) (map g zs) = map (\<lambda>z. h (f z) (g z)) zs"
  by (induction zs) auto

lemma cell_at_upd [simp]:
  "cell_at (r(c \<mapsto> v)) c' = (if c' = c then v else cell_at r c')"
  by (simp add: cell_at_def)

lemma the_float_simps [simp]:
  "the_float (PyFloat v) = v"
  by (simp add: the_float_def)

lemma the_int_PyInt [simp]: "the_int (PyInt i) = i"
  by (simp add: the_int_def)

lemma column_sum_no_zero_division: "column_sum df c \<noteq> Inl ZeroDivisionError"
  by (auto simp: column_sum_def series_def and_then_eq_Inl split: list.splits)

lemma unique_key:
  "distinct (map f xs) \<Longrightarrow> x \<in> set xs \<Longrightarrow> filter (\<lambda>x'. f x' = f x) xs = [x]"
proof (induction xs)
  case Nil
  then show ?case by simp
next
  case (Cons a xs)
  show ?case
  proof (cases "x = a")
    case True
    from Cons.prems(1) have "f a \<notin> f ` set xs" by simp
    then have "\<forall>x' \<in> set xs. f x' \<noteq> f a" by (metis imageI)
    then have "filter (\<lambda>x'. f x' = f a) xs = []"
      by (simp add: filter_empty_conv)
    with True show ?thesis by simp
  next
    case False
    with Cons.prems have "x \<in> set xs" "f a \<noteq> f x" by auto
    with Cons show ?thesis by simp
  qed
qed

subsection \<open>optimize_expenditures\<close>

lemma optimize_loop_Cons:
  "optimize_loop E i a b g df (r # rs) =
     and_then (read_forecast E df r) (\<lambda>p.
     and_then (optimize_loop E i a b g df rs) (\<lambda>acc.
       Inr (fst (optimize_point E i a b g (fst p) (snd p)) # fst acc,
            snd (optimize_point E i a b g (fst p) (snd p)) # snd acc)))"
  by (cases "read_forecast E df r"; cases "optimize_loop E i a b g df rs")
     (simp_all add: case_prod_beta)

lemma optimize_loop_Inr:
  "optimize_loop E i a b g df rs = Inr (cs, os) \<Longrightarrow>
     \<exists>ps. map (read_forecast E df) rs = map Inr ps
        \<and> cs = map (\<lambda>p. fst (optimize_point E i a b g (fst p) (snd p))) ps
        \<and> os = map (\<lambda>p. snd (optimize_point E i a b g (fst p) (snd p))) ps"
proof (induction rs arbitrary: cs os)
  case Nil
  then show ?case by simp
next
  case (Cons r rs)
  from Cons.prems obtain pc po cs' os' where
    rd: "read_forecast E df r = Inr (pc, po)" and
    rest: "optimize_loop E i a b g df rs = Inr (cs', os')" and
    cs: "cs = fst (optimize_point E i a b g pc po) # cs'" and
    os: "os = snd (optimize_point E i a b g pc po) # os'"
    by (auto simp: optimize_loop_Cons and_then_eq_Inr simp del: optimize_loop.simps)
  from Cons.IH [OF rest] obtain ps where
    ps: "map (read_forecast E df) rs = map Inr ps"
      "cs' = map (\<lambda>p. fst (optimize_point E i a b g (fst p) (snd p))) ps"
      "os' = map (\<lambda>p. snd (optimize_point E i a b g (fst p) (snd p))) ps"
    by blast
  show ?case
    by (rule exI [of _ "(pc, po) # ps"]) (simp add: rd ps cs os)
qed

lemma optimize_loop_total:
  "map (read_forecast E df) rs = map Inr ps \<Longrightarrow>
     optimize_loop E i a b g df rs =
       Inr (map (\<lambda>p. fst (optimize_point E i a b g (fst p) (snd p))) ps,
            map (\<lambda>p. snd (optimize_point E i a b g (fst p) (snd p))) ps)"
proof (induction rs arbitrary: ps)
  case Nil
  then show ?case by simp
next
  case (Cons r rs)
  then obtain p ps' where ps: "ps = p # ps'" by (cases ps) auto
  with Cons.prems have rd: "read_forecast E df r = Inr p"
    and rest: "map (read_forecast E df) rs = map Inr ps'" by auto
  show ?case
    by (simp add: optimize_loop_Cons ps rd Cons.IH [OF rest] del: optimize_loop.simps)
qed

lemma optimize_loop_lengths:
  "optimize_loop E i a b g df rs = Inr (cs, os) \<Longrightarrow> length cs = length rs \<and> length os = length rs"
  using optimize_loop_Inr [of E i a b g df rs cs os] by (metis length_map)

lemma optimize_expenditures_Inr:
  assumes "optimize_expenditures E df i a b g = Inr out"
  shows "\<exists>ps. map (read_forecast E df) (rows df) = map Inr ps
     \<and> columns out = with_column (with_column (columns df) ''Optimized_CapEx'') ''Optimized_OpEx''
     \<and> length (rows out) = length (rows df)
     \<and> (\<forall>k < length (rows df). rows out ! k =
          (rows df ! k)(''Optimized_CapEx'' \<mapsto> PyFloat (fst (optimize_point E i a b g (fst (ps ! k)) (snd (ps ! k)))),
                        ''Optimized_OpEx'' \<mapsto> PyFloat (snd (optimize_point E i a b g (fst (ps ! k)) (snd (ps ! k))))))"
proof -
  from assms obtain cs os out1 where
    loop: "optimize_loop E i a b g df (rows df) = Inr (cs, os)" and
    a1: "assign df ''Optimized_CapEx'' (map PyFloat cs) = Inr out1" and
    a2: "assign out1 ''Optimized_OpEx'' (map PyFloat os) = Inr out"
    by (auto simp: optimize_expenditures_def and_then_eq_Inr)
  from optimize_loop_Inr [OF loop] obtain ps where
    ps: "map (read_forecast E df) (rows df) = map Inr ps"
      "cs = map (\<lambda>p. fst (optimize_point E i a b g (fst p) (snd p))) ps"
      "os = map (\<lambda>p. snd (optimize_point E i a b g (fst p) (snd p))) ps"
    by blast
  from ps(1) have len: "length ps = length (rows df)"
    by (metis length_map)
  from a1 have out1: "out1 = \<lparr>columns = with_column (columns df) ''Optimized_CapEx'',
      rows = map2 (\<lambda>r v. r(''Optimized_CapEx'' \<mapsto> v)) (rows df) (map PyFloat cs)\<rparr>"
    by (auto simp: assign_def with_column_def split: if_splits)
  from a2 have out: "out = \<lparr>columns = with_column (columns out1) ''Optimized_OpEx'',
      rows = map2 (\<lambda>r v. r(''Optimized_OpEx'' \<mapsto> v)) (rows out1) (map PyFloat os)\<rparr>"
    by (auto simp: assign_def with_column_def split: if_splits)
  show ?thesis
    by (rule exI [of _ ps]) (simp add: ps out out1 len)
qed

lemma optimize_expenditures_row:
  assumes out: "optimize_expenditures E df i a b g = Inr out"
    and k: "k < length (rows df)"
    and rd: "read_forecast E df (rows df ! k) = Inr (pc, po)"
  shows "rows out ! k =
          (rows df ! k)(''Optimized_CapEx'' \<mapsto> PyFloat (fst (optimize_point E i a b g pc po)),
                        ''Optimized_OpEx'' \<mapsto> PyFloat (snd (optimize_point E i a b g pc po)))"
proof -
  from optimize_expenditures_Inr [OF out] obtain ps where
    ps: "map (read_forecast E df) (rows df) = map Inr ps" and
    row: "\<forall>k < length (rows df). rows out ! k =
          (rows df ! k)(''Optimized_CapEx'' \<mapsto> PyFloat (fst (optimize_point E i a b g (fst (ps ! k)) (snd (ps ! k)))),
                        ''Optimized_OpEx'' \<mapsto> PyFloat (snd (optimize_point E i a b g (fst (ps ! k)) (snd (ps ! k)))))"
    by blast
  from ps have len: "length ps = length (rows df)" by (metis length_map)
  from ps k len have "read_forecast E df (rows df ! k) = Inr (ps ! k)"
    by (metis nth_map)
  with rd have "ps ! k = (pc, po)" by simp
  with row k show ?thesis by simp
qed

lemma optimize_expenditures_total:
  assumes "\<forall>r \<in> set (rows df). \<exists>p. read_forecast E df r = Inr p"
  shows "\<exists>out. optimize_expenditures E df i a b g = Inr out"
proof -
  from readable_rows [OF assms] obtain ps where
    ps: "map (read_forecast E df) (rows df) = map Inr ps" by blast
  then have len: "length ps = length (rows df)" by (metis length_map)
  show ?thesis
    by (simp add: optimize_expenditures_def optimize_loop_total [OF ps] assign_def len)
qed

lemma fallback_point:
  "\<not> accepted (solve_row E i a b g pc po) \<Longrightarrow>
     optimize_point E i a b g pc po = (fmul (Fl 0.8) pc, fmul (Fl 0.7) po)"
  by (simp add: optimize_point_def)

lemma accepted_point:
  "accepted (solve_row E i a b g pc po) \<Longrightarrow>
     optimize_point E i a b g pc po = result_x (solve_row E i a b g pc po)"
  by (simp add: optimize_point_def)

lemma feasible_iff:
  assumes "isfinite x" "isfinite y"
  shows "feasible bounds (constraints pc po) (x, y) \<longleftrightarrow>
     fge x (fmul (Fl 0.8) pc) \<and> fge y (fmul (Fl 0.7) po) \<and> fge x (Fl 0) \<and> fge y (Fl 0)"
  using assms
  by (auto simp: feasible_def bounds_def constraints_def in_bound_def constraint_floor_iff)


lemma optimize_point_finite:
  "isfinite pc \<Longrightarrow> isfinite po \<Longrightarrow>
     isfinite (fst (optimize_point E i a b g pc po)) \<and> isfinite (snd (optimize_point E i a b g pc po))"
  by (simp add: optimize_point_def Let_def accepted_def floor_finite)

lemma objective_finite:
  "objective (Fl i) (Fl al) (Fl be) (Fl ga) (Fl a) (Fl b) (Fl c, Fl d)
     = Fl ((al * c + be * d) * (1 + i) + ga * ((c - a) * (c - a) + (d - b) * (d - b)))"
  by (simp add: objective_def fsub_def fpow2_def)

lemma descent_saves:
  fixes al i ga a b c e :: real
  assumes pos: "0 < al * (1 + i)" and ga: "0 \<le> ga"
    and le: "(al * c + al * e) * (1 + i) + ga * ((c - a) * (c - a) + (e - b) * (e - b))
      \<le> (al * a + al * b) * (1 + i) + ga * ((a - a) * (a - a) + (b - b) * (b - b))"
  shows "c + e \<le> a + b"
proof -
  define q where "q = (c - a) * (c - a) + (e - b) * (e - b)"
  have "0 \<le> q" by (simp add: q_def)
  with ga have gq: "0 \<le> ga * q" by simp
  from le have "(al * c + al * e) * (1 + i) + ga * q \<le> (al * a + al * b) * (1 + i)"
    by (simp add: q_def)
  with gq have "(al * c + al * e) * (1 + i) \<le> (al * a + al * b) * (1 + i)"
    by linarith
  then have "(al * (1 + i)) * (c + e) \<le> (al * (1 + i)) * (a + b)"
    by (simp add: algebra_simps)
  with pos show ?thesis
    by (simp only: mult_le_cancel_left_pos)
qed

lemma optimize_point_saves:
  assumes d: "no_worse_than_forecast E (Fl 0.03) (Fl 0.5) (Fl 0.5) (Fl 0.001) (Fl a) (Fl b)"
    and ok: "0 \<le> a" "0 \<le> b"
  shows "\<exists>c d. optimize_point E (Fl 0.03) (Fl 0.5) (Fl 0.5) (Fl 0.001) (Fl a) (Fl b) = (Fl c, Fl d)
     \<and> c + d \<le> a + b"
proof (cases "accepted (solve_row E (Fl 0.03) (Fl 0.5) (Fl 0.5) (Fl 0.001) (Fl a) (Fl b))")
  case True
  let ?r = "solve_row E (Fl 0.03) (Fl 0.5) (Fl 0.5) (Fl 0.001) (Fl a) (Fl b)"
  from True obtain c e where x: "result_x ?r = (Fl c, Fl e)"
    by (cases "result_x ?r"; cases "fst (result_x ?r)"; cases "snd (result_x ?r)")
       (auto simp: accepted_def)
  from d True have "fge (objective (Fl 0.03) (Fl 0.5) (Fl 0.5) (Fl 0.001) (Fl a) (Fl b) (Fl a, Fl b))
      (objective (Fl 0.03) (Fl 0.5) (Fl 0.5) (Fl 0.001) (Fl a) (Fl b) (result_x ?r))"
    unfolding no_worse_than_forecast_def by blast
  then have le0: "(0.5 * c + 0.5 * e) * (1 + 0.03) + 0.001 * ((c - a) * (c - a) + (e - b) * (e - b))
      \<le> (0.5 * a + 0.5 * b) * (1 + 0.03) + 0.001 * ((a - a) * (a - a) + (b - b) * (b - b))"
    unfolding x objective_finite by (simp only: fge.simps)
  have "c + e \<le> a + b"
    by (rule descent_saves [OF _ _ le0]) simp_all
  with accepted_point [OF True] x show ?thesis by simp
next
  case False
  from ok have le: "0.8 * a + 0.7 * b \<le> a + b" by simp
  have "optimize_point E (Fl 0.03) (Fl 0.5) (Fl 0.5) (Fl 0.001) (Fl a) (Fl b)
      = (Fl (0.8 * a), Fl (0.7 * b))"
    by (simp only: fallback_point [OF False] fmul.simps)
  with le show ?thesis by blast
qed

lemma corner_step:
  fixes a c x k l :: real
  assumes "c \<le> x" and "0 \<le> k" and "0 \<le> l + k * (2 * c - 2 * a)"
  shows "l * c + k * ((c - a) * (c - a)) \<le> l * x + k * ((x - a) * (x - a))"
proof -
  from assms(1,2) have "k * (2 * c - 2 * a) \<le> k * (x + c - 2 * a)"
    by (intro mult_left_mono) simp_all
  with assms(3) have "0 \<le> l + k * (x + c - 2 * a)" by linarith
  with assms(1) have "0 \<le> (x - c) * (l + k * (x + c - 2 * a))"
    by (intro mult_nonneg_nonneg) simp_all
  moreover have "(l * x + k * ((x - a) * (x - a))) - (l * c + k * ((c - a) * (c - a)))
      = (x - c) * (l + k * (x + c - 2 * a))"
    by (simp add: algebra_simps)
  ultimately show ?thesis
    by linarith
qed

lemma corner_le:
  fixes a b c e x y al i k :: real
  assumes "c \<le> x" and "e \<le> y" and "0 \<le> k"
    and "0 \<le> al * (1 + i) + k * (2 * c - 2 * a)"
    and "0 \<le> al * (1 + i) + k * (2 * e - 2 * b)"
  shows "(al * c + al * e) * (1 + i) + k * ((c - a) * (c - a) + (e - b) * (e - b))
       \<le> (al * x + al * y) * (1 + i) + k * ((x - a) * (x - a) + (y - b) * (y - b))"
proof -
  define l where "l = al * (1 + i)"
  have "(al * c + al * e) * (1 + i) + k * ((c - a) * (c - a) + (e - b) * (e - b))
      = (l * c + k * ((c - a) * (c - a))) + (l * e + k * ((e - b) * (e - b)))"
    by (simp add: l_def algebra_simps)
  moreover have "(al * x + al * y) * (1 + i) + k * ((x - a) * (x - a) + (y - b) * (y - b))
      = (l * x + k * ((x - a) * (x - a))) + (l * y + k * ((y - b) * (y - b)))"
    by (simp add: l_def algebra_simps)
  moreover have "l * c + k * ((c - a) * (c - a)) \<le> l * x + k * ((x - a) * (x - a))"
    using assms by (intro corner_step) (simp_all add: l_def)
  moreover have "l * e + k * ((e - b) * (e - b)) \<le> l * y + k * ((y - b) * (y - b))"
    using assms by (intro corner_step) (simp_all add: l_def)
  ultimately show ?thesis
    by linarith
qed

lemma corner_is_minimum:
  assumes a: "a \<le> 1287.5" and b: "3 * b \<le> 2575"
    and f: "feasible bounds (constraints (Fl a) (Fl b)) (Fl x, Fl y)"
  shows "fge (objective (Fl 0.03) (Fl 0.5) (Fl 0.5) (Fl 0.001) (Fl a) (Fl b) (Fl x, Fl y))
             (objective (Fl 0.03) (Fl 0.5) (Fl 0.5) (Fl 0.001) (Fl a) (Fl b)
                (result_x (corner_solver h (Fl a, Fl b) bs cs)))"
proof -
  define c where "c = max 0 (0.8 * a)"
  define e where "e = max 0 (0.7 * b)"
  have r: "result_x (corner_solver h (Fl a, Fl b) bs cs) = (Fl c, Fl e)"
    by (simp add: corner_solver_def c_def e_def max_def)
  from f have "0.8 * a \<le> x" "0 \<le> x" "0.7 * b \<le> y" "0 \<le> y"
    by (simp_all add: feasible_iff)
  then have cx: "c \<le> x" and ey: "e \<le> y"
    by (simp_all add: c_def e_def)
  from a have ca: "0 \<le> 0.5 * (1 + 0.03) + 0.001 * (2 * c - 2 * a)"
    by (simp add: c_def max_def)
  from b have eb: "0 \<le> 0.5 * (1 + 0.03) + 0.001 * (2 * e - 2 * b)"
    by (simp add: e_def max_def)
  have "(0.5 * c + 0.5 * e) * (1 + 0.03) + 0.001 * ((c - a) * (c - a) + (e - b) * (e - b))
      \<le> (0.5 * x + 0.5 * y) * (1 + 0.03) + 0.001 * ((x - a) * (x - a) + (y - b) * (y - b))"
    by (rule corner_le [OF cx ey _ ca eb]) simp
  then show ?thesis
    unfolding r objective_finite by (simp only: fge.simps)
qed

lemma corner_no_worse:
  assumes "0 \<le> a" "a \<le> 1287.5" "0 \<le> b" "3 * b \<le> 2575"
  shows "no_worse_than_forecast corner_env (Fl 0.03) (Fl 0.5) (Fl 0.5) (Fl 0.001) (Fl a) (Fl b)"
proof -
  from assms(1,3) have "feasible bounds (constraints (Fl a) (Fl b)) (Fl a, Fl b)"
    by (simp add: feasible_iff)
  from corner_is_minimum [OF assms(2,4) this]
  show ?thesis
    by (simp add: no_worse_than_forecast_def solve_row_def corner_env_def)
qed

subsection \<open>optimize_expenditures on the store\<close>

lemma store_success:
  assumes "optimize_expenditures E (h ! df) i a b g = Inr out"
  shows "optimize_expenditures_store E h df i a b g = (h @ [out], Inr (length h))"
proof -
  from assms obtain cs os out1 where
    loop: "optimize_loop E i a b g (h ! df) (rows (h ! df)) = Inr (cs, os)" and
    a1: "assign (h ! df) ''Optimized_CapEx'' (map PyFloat cs) = Inr out1" and
    a2: "assign out1 ''Optimized_OpEx'' (map PyFloat os) = Inr out"
    by (auto simp: optimize_expenditures_def and_then_eq_Inr)
  show ?thesis
    by (simp add: optimize_expenditures_store_def loop copy_frame_def assign_at_def a1 a2)
qed

lemma store_failure:
  assumes "optimize_expenditures E (h ! df) i a b g = Inl e"
  shows "optimize_expenditures_store E h df i a b g = (h, Inl e)"
proof (cases "optimize_loop E i a b g (h ! df) (rows (h ! df))")
  case (Inl e')
  with assms show ?thesis
    by (simp add: optimize_expenditures_store_def optimize_expenditures_def)
next
  case (Inr acc)
  obtain cs os where acc: "acc = (cs, os)" by (cases acc)
  from optimize_loop_lengths [OF Inr [unfolded acc]] assms show ?thesis
    by (simp add: optimize_expenditures_def Inr acc assign_def)
qed

lemma store_result:
  "optimize_expenditures_store E h df i a b g = (h', Inr out) \<longleftrightarrow>
     out = length h \<and> (\<exists>f. optimize_expenditures E (h ! df) i a b g = Inr f \<and> h' = h @ [f])"
  by (cases "optimize_expenditures E (h ! df) i a b g")
     (auto simp: store_failure store_success)

subsection \<open>metrics and generate_recommendations\<close>

lemma metrics_Inr:
  assumes "column_sum full_df ''Forecast_CapEx'' = Inr fc"
    "column_sum full_df ''Forecast_OpEx'' = Inr fo"
    "column_sum full_df ''Optimized_CapEx'' = Inr oc"
    "column_sum full_df ''Optimized_OpEx'' = Inr oo"
  shows "\<exists>pct. metrics full_df =
     Inr \<lparr>total_savings = fsub (fadd fc fo) (fadd oc oo), savings_pct = pct,
          total_forecast = fadd fc fo, total_optimized = fadd oc oo\<rparr>
     \<and> (fadd fc fo = Fl 0 \<longrightarrow> pct = Fl 0)"
proof -
  obtain v where v: "(if truthy (fadd fc fo)
      then and_then (py_div (fsub (fadd fc fo) (fadd oc oo)) (fadd fc fo)) (\<lambda>q. Inr (fmul q (Fl 100)))
      else Inr (Fl 0)) = Inr v"
    using guarded_Inr [where f = "\<lambda>q. fmul q (Fl 100)"] by blast
  then have "fadd fc fo = Fl 0 \<longrightarrow> v = Fl 0" by auto
  with v show ?thesis
    by (simp add: metrics_def assms Let_def del: fadd.simps)
qed

lemma metrics_cases:
  "(\<exists>e. metrics full_df = Inl e \<and> e \<noteq> ZeroDivisionError) \<or>
   (\<exists>fc fo oc oo. column_sum full_df ''Forecast_CapEx'' = Inr fc \<and>
    column_sum full_df ''Forecast_OpEx'' = Inr fo \<and>
    column_sum full_df ''Optimized_CapEx'' = Inr oc \<and>
    column_sum full_df ''Optimized_OpEx'' = Inr oo)"
proof (cases "column_sum full_df ''Forecast_CapEx''")
  case (Inl e)
  then show ?thesis using column_sum_no_zero_division [of full_df "''Forecast_CapEx''"]
    by (simp add: metrics_def)
next
  case fc: (Inr fc)
  show ?thesis
  proof (cases "column_sum full_df ''Forecast_OpEx''")
    case (Inl e)
    then show ?thesis using column_sum_no_zero_division [of full_df "''Forecast_OpEx''"]
      by (simp add: metrics_def fc)
  next
    case fo: (Inr fo)
    show ?thesis
    proof (cases "column_sum full_df ''Optimized_CapEx''")
      case (Inl e)
      then show ?thesis using column_sum_no_zero_division [of full_df "''Optimized_CapEx''"]
        by (simp add: metrics_def fc fo)
    next
      case oc: (Inr oc)
      show ?thesis
      proof (cases "column_sum full_df ''Optimized_OpEx''")
        case (Inl e)
        then show ?thesis using column_sum_no_zero_division [of full_df "''Optimized_OpEx''"]
          by (simp add: metrics_def fc fo oc)
      next
        case (Inr oo)
        with fc fo oc show ?thesis by simp
      qed
    qed
  qed
qed

lemma recommendations_Inr:
  assumes "column_sum pred_df ''Forecast_CapEx'' = Inr fc"
    "column_sum pred_df ''Forecast_OpEx'' = Inr fo"
    "column_sum opt_df ''Optimized_CapEx'' = Inr oc"
    "column_sum opt_df ''Optimized_OpEx'' = Inr oo"
  shows "\<exists>r. generate_recommendations pred_df opt_df = Inr r
     \<and> rec_total_savings r = fsub (nansum [fc, fo]) (nansum [oc, oo])
     \<and> (nansum [fc, fo] = Fl 0 \<longrightarrow> rec_savings_pct r = Fl 0)"
proof -
  obtain v1 where v1: "(if truthy (nansum [fc, fo])
      then and_then (py_div (fsub (nansum [fc, fo]) (nansum [oc, oo])) (nansum [fc, fo]))
             (\<lambda>q. Inr (fmul q (Fl 100)))
      else Inr (Fl 0)) = Inr v1"
    using guarded_Inr [where f = "\<lambda>q. fmul q (Fl 100)"] by blast
  obtain v2 where v2: "(if truthy fc
      then and_then (py_div oc fc) (\<lambda>q. Inr (fmul (fsub (Fl 1) q) (Fl 100)))
      else Inr (Fl 0)) = Inr v2"
    using guarded_Inr [where f = "\<lambda>q. fmul (fsub (Fl 1) q) (Fl 100)"] by blast
  obtain v3 where v3: "(if truthy fo
      then and_then (py_div oo fo) (\<lambda>q. Inr (fmul (fsub (Fl 1) q) (Fl 100)))
      else Inr (Fl 0)) = Inr v3"
    using guarded_Inr [where f = "\<lambda>q. fmul (fsub (Fl 1) q) (Fl 100)"] by blast
  from v1 have "nansum [fc, fo] = Fl 0 \<longrightarrow> v1 = Fl 0" by auto
  with v1 v2 v3 show ?thesis
    by (simp add: generate_recommendations_def assms Let_def del: fadd.simps)
qed

lemma recommendations_cases:
  "(\<exists>e. generate_recommendations pred_df opt_df = Inl e \<and> e \<noteq> ZeroDivisionError) \<or>
   (\<exists>fc fo oc oo. column_sum pred_df ''Forecast_CapEx'' = Inr fc \<and>
    column_sum pred_df ''Forecast_OpEx'' = Inr fo \<and>
    column_sum opt_df ''Optimized_CapEx'' = Inr oc \<and>
    column_sum opt_df ''Optimized_OpEx'' = Inr oo)"
proof (cases "column_sum pred_df ''Forecast_CapEx''")
  case (Inl e)
  then show ?thesis using column_sum_no_zero_division [of pred_df "''Forecast_CapEx''"]
    by (simp add: generate_recommendations_def)
next
  case fc: (Inr fc)
  show ?thesis
  proof (cases "column_sum pred_df ''Forecast_OpEx''")
    case (Inl e)
    then show ?thesis using column_sum_no_zero_division [of pred_df "''Forecast_OpEx''"]
      by (simp add: generate_recommendations_def fc)
  next
    case fo: (Inr fo)
    show ?thesis
    proof (cases "column_sum opt_df ''Optimized_CapEx''")
      case (Inl e)
      then show ?thesis using column_sum_no_zero_division [of opt_df "''Optimized_CapEx''"]
        by (simp add: generate_recommendations_def fc fo)
    next
      case oc: (Inr oc)
      show ?thesis
      proof (cases "column_sum opt_df ''Optimized_OpEx''")
        case (Inl e)
        then show ?thesis using column_sum_no_zero_division [of opt_df "''Optimized_OpEx''"]
          by (simp add: generate_recommendations_def fc fo oc)
      next
        case (Inr oo)
        with fc fo oc show ?thesis by simp
      qed
    qed
  qed
qed

subsection \<open>run_analysis: the years\<close>

lemma length_ffill_from [simp]: "length (ffill_from p vs) = length vs"
  by (induction vs arbitrary: p) auto

lemma length_numeric_years [simp]: "length (numeric_years E df) = length (rows df)"
  by (simp add: numeric_years_def ffill_def)

lemma is_missing_float [simp]: "is_missing (PyFloat y) = isnan y"
  by (cases y) (simp_all add: is_missing_def)

lemma astype_int_float:
  "isfinite y \<Longrightarrow> astype_int (PyFloat y) = Inr (PyInt (the_int (PyFloat y)))"
  by (cases y) (simp_all add: astype_int_def the_int_def)

lemma astype_int_errors: "astype_int v = Inl e \<Longrightarrow> e = ValueError Non_Finite_To_Int"
  by (auto simp: astype_int_def split: cell.splits pyfloat.splits)

lemma astype_int_nonfinite:
  "\<not> isfinite y \<Longrightarrow> astype_int (PyFloat y) = Inl (ValueError Non_Finite_To_Int)"
  by (cases y) (simp_all add: astype_int_def)

lemma clean_years_eq:
  assumes hc: "has_column df ''Year''"
  shows "clean_years E df =
     (if list_all (\<lambda>z. isfinite (snd z)) (year_rows E df)
      then Inr (df\<lparr>rows := map (\<lambda>z. (fst z)(''Year'' \<mapsto> PyInt (the_int (PyFloat (snd z)))))
                              (year_rows E df)\<rparr>)
      else Inl (ValueError Non_Finite_To_Int))"
proof -
  let ?R = "rows df" and ?N = "numeric_years E df"
  let ?df1 = "df\<lparr>rows := map2 (\<lambda>r v. r(''Year'' \<mapsto> v)) ?R (map PyFloat ?N)\<rparr>"
  have s0: "series df ''Year'' = Inr (map (\<lambda>r. cell_at r ''Year'') ?R)"
    using hc by (rule series_has_column)
  have vals: "map (\<lambda>v. PyFloat (to_numeric E v)) (ffill (map (\<lambda>r. cell_at r ''Year'') ?R))
      = map PyFloat ?N"
    by (simp add: numeric_years_def)
  have a1: "assign df ''Year'' (map PyFloat ?N) = Inr ?df1"
    using hc by (simp add: assign_existing)
  have rows1: "rows ?df1 = map (\<lambda>z. (fst z)(''Year'' \<mapsto> PyFloat (snd z))) (zip ?R ?N)"
    by (simp add: zip_map2 case_prod_beta)
  have hc1: "has_column ?df1 ''Year''" using hc by simp
  let ?df2 = "?df1\<lparr>rows := map (\<lambda>z. (fst z)(''Year'' \<mapsto> PyFloat (snd z))) (year_rows E df)\<rparr>"
  have flt: "filter (\<lambda>r. \<not> is_missing (cell_at r ''Year'')) (rows ?df1)
      = map (\<lambda>z. (fst z)(''Year'' \<mapsto> PyFloat (snd z))) (year_rows E df)"
    unfolding rows1 year_rows_def by (simp add: filter_map comp_def)
  have "?df1\<lparr>rows := map (\<lambda>z. (fst z)(''Year'' \<mapsto> PyFloat (snd z))) (year_rows E df)\<rparr> = ?df2"
    by simp
  then have d: "dropna ?df1 ''Year'' = Inr ?df2"
    by (simp only: dropna_eq [OF hc1] flt)
  have hc2: "has_column ?df2 ''Year''" using hc by simp
  have s2: "series ?df2 ''Year'' = Inr (map (\<lambda>z. PyFloat (snd z)) (year_rows E df))"
    unfolding series_has_column [OF hc2] by (simp add: comp_def)
  show ?thesis
  proof (cases "list_all (\<lambda>z. isfinite (snd z)) (year_rows E df)")
    case True
    then have "\<forall>v \<in> set (map (\<lambda>z. PyFloat (snd z)) (year_rows E df)).
        astype_int v = Inr (PyInt (the_int v))"
      by (auto simp: list_all_iff astype_int_float)
    from traverse_total [OF this]
    have t: "traverse astype_int (map (\<lambda>z. PyFloat (snd z)) (year_rows E df))
        = Inr (map (\<lambda>z. PyInt (the_int (PyFloat (snd z)))) (year_rows E df))"
      by (simp add: comp_def)
    have a2: "assign ?df2 ''Year'' (map (\<lambda>z. PyInt (the_int (PyFloat (snd z)))) (year_rows E df))
        = Inr (df\<lparr>rows := map (\<lambda>z. (fst z)(''Year'' \<mapsto> PyInt (the_int (PyFloat (snd z)))))
                              (year_rows E df)\<rparr>)"
      using hc2 by (simp add: assign_existing map2_same)
    show ?thesis
      by (simp only: clean_years_def s0 vals and_then_Inr a1 d s2 t a2 True if_True)
  next
    case False
    then obtain z where z: "z \<in> set (year_rows E df)" "\<not> isfinite (snd z)"
      by (auto simp: list_all_iff)
    have "\<exists>e. traverse astype_int (map (\<lambda>z. PyFloat (snd z)) (year_rows E df)) = Inl e"
    proof (cases "traverse astype_int (map (\<lambda>z. PyFloat (snd z)) (year_rows E df))")
      case (Inl e)
      then show ?thesis by simp
    next
      case (Inr ys)
      then have "map astype_int (map (\<lambda>z. PyFloat (snd z)) (year_rows E df)) = map Inr ys"
        by (simp add: traverse_Inr)
      then have "length ys = length (year_rows E df)"
        by (metis length_map)
      from z(1) obtain k where k: "k < length (year_rows E df)" "year_rows E df ! k = z"
        by (auto simp: in_set_conv_nth)
      from \<open>map astype_int (map (\<lambda>z. PyFloat (snd z)) (year_rows E df)) = map Inr ys\<close>
      have "map astype_int (map (\<lambda>z. PyFloat (snd z)) (year_rows E df)) ! k = map Inr ys ! k"
        by simp
      with k \<open>length ys = length (year_rows E df)\<close>
      have "astype_int (PyFloat (snd z)) = Inr (ys ! k)" by simp
      with astype_int_nonfinite [OF z(2)] show ?thesis by simp
    qed
    then obtain e where t: "traverse astype_int (map (\<lambda>z. PyFloat (snd z)) (year_rows E df)) = Inl e"
      by blast
    from traverse_Inl [OF t] have "e = ValueError Non_Finite_To_Int"
      by (auto dest: astype_int_errors)
    with t show ?thesis
      by (simp only: clean_years_def s0 vals and_then_Inr and_then_Inl a1 d s2 False if_False)
  qed
qed

lemma clean_years_no_column:
  "\<not> has_column df ''Year'' \<Longrightarrow>
     clean_years E df = Inl (KeyError ''Year'') \<or> clean_years E df = Inl (NotASeries ''Year'')"
  using series_cases [of df "''Year''"] by (auto simp: clean_years_def)


subsection \<open>run_analysis: the bank and its history\<close>

lemma select_bank_eq:
  assumes hc: "has_column df ''Banks''"
  shows "select_bank E df bank_name =
     (if filter (\<lambda>r. matches_bank E bank_name (cell_at r ''Banks'')) (rows df) = []
      then Inl (ValueError No_Data_For_Bank)
      else Inr (df\<lparr>rows := filter (\<lambda>r. matches_bank E bank_name (cell_at r ''Banks'')) (rows df)\<rparr>))"
  unfolding select_bank_def series_has_column [OF hc]
  by (simp only: and_then_Inr select_rows_series Let_def)
     (simp add: empty_frame_def has_column_nonempty [OF hc])

lemma select_bank_no_column:
  "\<not> has_column df ''Banks'' \<Longrightarrow>
     select_bank E df bank_name = Inl (KeyError ''Banks'') \<or>
     select_bank E df bank_name = Inl (NotASeries ''Banks'')"
  using series_cases [of df "''Banks''"] by (auto simp: select_bank_def)


lemma history_eq:
  assumes y: "has_column bank_df ''Year''"
    and c: "has_column bank_df ''Capital Expenditure''"
    and ox: "has_column bank_df ''Operating Expenditure''"
  shows "history E bank_df current_year =
     Inr (groupby_sum (bank_df\<lparr>rows := map (numeric_row E)
            (filter (\<lambda>r. the_int (cell_at r ''Year'') \<le> current_year - 1) (rows bank_df))\<rparr>))"
proof -
  let ?h = "bank_df\<lparr>rows := filter (\<lambda>r. the_int (cell_at r ''Year'') \<le> current_year - 1) (rows bank_df)\<rparr>"
  let ?f1 = "\<lambda>r. r(''Capital Expenditure'' \<mapsto> PyFloat (fillna0 (to_numeric E (cell_at r ''Capital Expenditure''))))"
  let ?h1 = "?h\<lparr>rows := map ?f1 (rows ?h)\<rparr>"
  have sel: "select_rows bank_df
      (map (\<lambda>v. the_int v \<le> current_year - 1) (map (\<lambda>r. cell_at r ''Year'') (rows bank_df))) = ?h"
    by (rule select_rows_series)
  have hc: "has_column ?h ''Capital Expenditure''" using c by simp
  have a1: "assign ?h ''Capital Expenditure''
      (map (\<lambda>v. PyFloat (fillna0 (to_numeric E v))) (map (\<lambda>r. cell_at r ''Capital Expenditure'') (rows ?h)))
      = Inr ?h1"
    using hc by (simp add: assign_existing map2_same [where f = "\<lambda>r. r", simplified] comp_def)
  have ho: "has_column ?h1 ''Operating Expenditure''" using ox by simp
  have a2: "assign ?h1 ''Operating Expenditure''
      (map (\<lambda>v. PyFloat (fillna0 (to_numeric E v))) (map (\<lambda>r. cell_at r ''Operating Expenditure'') (rows ?h1)))
      = Inr (?h\<lparr>rows := map (numeric_row E) (rows ?h)\<rparr>)"
    using ho
    by (simp add: assign_existing map2_same comp_def numeric_row_def)
  have fin: "?h\<lparr>rows := map (numeric_row E) (rows ?h)\<rparr> =
      bank_df\<lparr>rows := map (numeric_row E)
            (filter (\<lambda>r. the_int (cell_at r ''Year'') \<le> current_year - 1) (rows bank_df))\<rparr>"
    by simp
  show ?thesis
    by (simp only: history_def Let_def series_has_column [OF y] and_then_Inr sel
        series_has_column [OF hc] a1 series_has_column [OF ho] a2 fin)
qed

lemma history_no_column:
  assumes "\<not> (has_column bank_df ''Year'' \<and> has_column bank_df ''Capital Expenditure''
      \<and> has_column bank_df ''Operating Expenditure'')"
  shows "\<exists>c. history E bank_df current_year = Inl (KeyError c) \<or>
     history E bank_df current_year = Inl (NotASeries c)"
proof (cases "has_column bank_df ''Year''")
  case False
  then show ?thesis
    using series_cases [of bank_df "''Year''"] by (auto simp: history_def)
next
  case y: True
  let ?h = "bank_df\<lparr>rows := filter (\<lambda>r. the_int (cell_at r ''Year'') \<le> current_year - 1) (rows bank_df)\<rparr>"
  have sel: "select_rows bank_df
      (map (\<lambda>v. the_int v \<le> current_year - 1) (map (\<lambda>r. cell_at r ''Year'') (rows bank_df))) = ?h"
    by (rule select_rows_series)
  show ?thesis
  proof (cases "has_column bank_df ''Capital Expenditure''")
    case False
    then have "\<not> has_column ?h ''Capital Expenditure''" by simp
    from series_cases [of ?h "''Capital Expenditure''"] this
    have "series ?h ''Capital Expenditure'' = Inl (KeyError ''Capital Expenditure'') \<or>
          series ?h ''Capital Expenditure'' = Inl (NotASeries ''Capital Expenditure'')"
      by blast
    then show ?thesis
      by (auto simp only: history_def Let_def series_has_column [OF y] and_then_Inr sel and_then_Inl)
  next
    case c: True
    with y assms have ox: "\<not> has_column bank_df ''Operating Expenditure''" by simp
    have hc: "has_column ?h ''Capital Expenditure''" using c by simp
    let ?f1 = "\<lambda>r. r(''Capital Expenditure'' \<mapsto> PyFloat (fillna0 (to_numeric E (cell_at r ''Capital Expenditure''))))"
    let ?h1 = "?h\<lparr>rows := map ?f1 (rows ?h)\<rparr>"
    have a1: "assign ?h ''Capital Expenditure''
        (map (\<lambda>v. PyFloat (fillna0 (to_numeric E v))) (map (\<lambda>r. cell_at r ''Capital Expenditure'') (rows ?h)))
        = Inr ?h1"
      using hc by (simp add: assign_existing map2_same [where f = "\<lambda>r. r", simplified] comp_def)
    from ox have "\<not> has_column ?h1 ''Operating Expenditure''" by simp
    from series_cases [of ?h1 "''Operating Expenditure''"] this
    have "series ?h1 ''Operating Expenditure'' = Inl (KeyError ''Operating Expenditure'') \<or>
          series ?h1 ''Operating Expenditure'' = Inl (NotASeries ''Operating Expenditure'')"
      by blast
    then show ?thesis
      by (auto simp only: history_def Let_def series_has_column [OF y] and_then_Inr sel
          series_has_column [OF hc] a1 and_then_Inl)
  qed
qed


subsection \<open>run_analysis: the records of the sheet\<close>

lemma sheet_records_zip:
  "sheet_records E df0 =
     map (record_of E) (zip (rows (strip_columns df0)) (numeric_years E (strip_columns df0)))"
  by (simp add: sheet_records_def Let_def record_of_def case_prod_beta)

lemma rec_simps [simp]:
  "rec_bank (record_of E z) = cell_at (fst z) ''Banks''"
  "rec_year (record_of E z) = snd z"
  "rec_capex (record_of E z) = to_numeric E (cell_at (fst z) ''Capital Expenditure'')"
  "rec_opex (record_of E z) = to_numeric E (cell_at (fst z) ''Operating Expenditure'')"
  "year_int (record_of E z) = the_int (PyFloat (snd z))"
  by (simp_all add: record_of_def rec_bank_def rec_year_def rec_capex_def rec_opex_def year_int_def)

lemma bank_records_zip:
  assumes "list_all (\<lambda>z. isfinite (snd z)) (year_rows E (strip_columns df0))"
  shows "bank_records E df0 bank_name =
     map (record_of E) (filter (\<lambda>z. matches_bank E bank_name (cell_at (fst z) ''Banks''))
        (year_rows E (strip_columns df0)))"
proof -
  let ?ZZ = "zip (rows (strip_columns df0)) (numeric_years E (strip_columns df0))"
  have "\<forall>z \<in> set ?ZZ. isfinite (snd z) \<longleftrightarrow> \<not> isnan (snd z)"
    using assms by (auto simp: year_rows_def list_all_iff isfinite_not_nan)
  then have "filter (\<lambda>z. isfinite (snd z) \<and> matches_bank E bank_name (cell_at (fst z) ''Banks'')) ?ZZ
      = filter (\<lambda>z. \<not> isnan (snd z) \<and> matches_bank E bank_name (cell_at (fst z) ''Banks'')) ?ZZ"
    by (intro filter_cong) auto
  then show ?thesis
    by (simp add: bank_records_def sheet_records_zip filter_map comp_def year_rows_def conj_commute)
qed

lemma historical_records_zip:
  assumes "list_all (\<lambda>z. isfinite (snd z)) (year_rows E (strip_columns df0))"
  shows "historical_records E df0 bank_name current_year =
     map (record_of E) (filter (\<lambda>z. the_int (PyFloat (snd z)) \<le> current_year - 1)
       (filter (\<lambda>z. matches_bank E bank_name (cell_at (fst z) ''Banks''))
        (year_rows E (strip_columns df0))))"
  by (simp add: historical_records_def bank_records_zip [OF assms] filter_map comp_def)

subsection \<open>run_analysis: the grouped table\<close>

lemma groupby_sum_map:
  assumes "rows f = map G Z"
    and "\<forall>z \<in> set Z. the_int (cell_at (G z) ''Year'') = ky z
          \<and> the_float (cell_at (G z) ''Capital Expenditure'') = cx z
          \<and> the_float (cell_at (G z) ''Operating Expenditure'') = ox z"
  shows "groupby_sum f =
     \<lparr>columns = [''Year'', ''Capital Expenditure'', ''Operating Expenditure''],
      rows = map (\<lambda>y. [''Year'' \<mapsto> PyInt y,
               ''Capital Expenditure'' \<mapsto> PyFloat (nansum (map cx (filter (\<lambda>z. ky z = y) Z))),
               ''Operating Expenditure'' \<mapsto> PyFloat (nansum (map ox (filter (\<lambda>z. ky z = y) Z)))])
        (sort (remdups (map ky Z)))\<rparr>"
proof -
  have keys: "map (\<lambda>r. the_int (cell_at r ''Year'')) (map G Z) = map ky Z"
    using assms(2) by simp
  have grp: "filter (\<lambda>r. the_int (cell_at r ''Year'') = y) (map G Z)
      = map G (filter (\<lambda>z. ky z = y) Z)" for y
    unfolding filter_map comp_def
    by (rule arg_cong [where f = "map G"], rule filter_cong) (use assms(2) in auto)
  have c: "map (\<lambda>r. the_float (cell_at r ''Capital Expenditure'')) (map G (filter (\<lambda>z. ky z = y) Z))
      = map cx (filter (\<lambda>z. ky z = y) Z)" for y
    using assms(2) by simp
  have x: "map (\<lambda>r. the_float (cell_at r ''Operating Expenditure'')) (map G (filter (\<lambda>z. ky z = y) Z))
      = map ox (filter (\<lambda>z. ky z = y) Z)" for y
    using assms(2) by simp
  show ?thesis
    by (simp only: groupby_sum_def assms(1) keys grp c x Let_def)
qed

lemma grouped_rows_eq:
  assumes fin: "list_all (\<lambda>z. isfinite (snd z)) (year_rows E (strip_columns df0))"
    and Z: "Z = filter (\<lambda>z. the_int (PyFloat (snd z)) \<le> current_year - 1)
       (filter (\<lambda>z. matches_bank E bank_name (cell_at (fst z) ''Banks''))
        (year_rows E (strip_columns df0)))"
    and f: "rows f = map (\<lambda>z. numeric_row E ((fst z)(''Year'' \<mapsto> PyInt (the_int (PyFloat (snd z)))))) Z"
  shows "groupby_sum f = grouped_by_year E df0 bank_name current_year"
proof -
  have H: "historical_records E df0 bank_name current_year = map (record_of E) Z"
    unfolding Z by (rule historical_records_zip [OF fin])
  have g: "groupby_sum f =
     \<lparr>columns = [''Year'', ''Capital Expenditure'', ''Operating Expenditure''],
      rows = map (\<lambda>y. [''Year'' \<mapsto> PyInt y,
               ''Capital Expenditure'' \<mapsto> PyFloat (nansum (map (\<lambda>z. fillna0 (to_numeric E (cell_at (fst z) ''Capital Expenditure'')))
                    (filter (\<lambda>z. the_int (PyFloat (snd z)) = y) Z))),
               ''Operating Expenditure'' \<mapsto> PyFloat (nansum (map (\<lambda>z. fillna0 (to_numeric E (cell_at (fst z) ''Operating Expenditure'')))
                    (filter (\<lambda>z. the_int (PyFloat (snd z)) = y) Z)))])
        (sort (remdups (map (\<lambda>z. the_int (PyFloat (snd z))) Z)))\<rparr>"
    by (rule groupby_sum_map [OF f]) (simp add: numeric_row_def)
  have keys: "map year_int (map (record_of E) Z) = map (\<lambda>z. the_int (PyFloat (snd z))) Z"
    by simp
  have grp: "filter (\<lambda>rc. year_int rc = y) (map (record_of E) Z)
      = map (record_of E) (filter (\<lambda>z. the_int (PyFloat (snd z)) = y) Z)" for y
    by (simp add: filter_map comp_def)
  have c: "map rec_capex (map (record_of E) zs)
      = map (\<lambda>z. to_numeric E (cell_at (fst z) ''Capital Expenditure'')) zs" for zs
    by simp
  have x: "map rec_opex (map (record_of E) zs)
      = map (\<lambda>z. to_numeric E (cell_at (fst z) ''Operating Expenditure'')) zs" for zs
    by simp
  show ?thesis
    unfolding g
    by (simp only: grouped_by_year_def historical_years_def H keys grp c x Let_def nansum_fillna0)
qed

lemma strip_columns_cols [simp]: "columns (strip_columns df0) = map strip (columns df0)"
  by (simp add: strip_columns_def)

lemma group_history_eq:
  assumes ic: "input_contract df0"
  shows "group_history E df0 bank_name current_year =
     (if \<not> list_all (\<lambda>z. isfinite (snd z)) (year_rows E (strip_columns df0))
      then Inl (ValueError Non_Finite_To_Int)
      else if bank_records E df0 bank_name = [] then Inl (ValueError No_Data_For_Bank)
      else Inr (grouped_by_year E df0 bank_name current_year))"
proof -
  let ?df = "strip_columns df0"
  from ic have hb: "has_column ?df ''Banks''" and hy: "has_column ?df ''Year''"
    and hc: "has_column ?df ''Capital Expenditure''" and ho: "has_column ?df ''Operating Expenditure''"
    by (simp_all add: input_contract_def)
  have banks: "''Banks'' \<in> set (columns ?df)" by (rule has_column_mem [OF hb])
  have start: "group_history E df0 bank_name current_year =
      and_then (clean_years E ?df) (\<lambda>df1.
      and_then (select_bank E df1 bank_name) (\<lambda>bank_df. history E bank_df current_year))"
    using banks by (simp only: group_history_def Let_def) simp
  show ?thesis
  proof (cases "list_all (\<lambda>z. isfinite (snd z)) (year_rows E ?df)")
    case False
    then show ?thesis
      by (simp add: start clean_years_eq [OF hy])
  next
    case fin: True
    let ?F = "\<lambda>z. (fst z)(''Year'' \<mapsto> PyInt (the_int (PyFloat (snd z))))"
    let ?df1 = "?df\<lparr>rows := map ?F (year_rows E ?df)\<rparr>"
    let ?ZB = "filter (\<lambda>z. matches_bank E bank_name (cell_at (fst z) ''Banks'')) (year_rows E ?df)"
    have cy: "clean_years E ?df = Inr ?df1"
      by (simp add: clean_years_eq [OF hy] fin)
    have hb1: "has_column ?df1 ''Banks''" using hb by simp
    have flt: "filter (\<lambda>r. matches_bank E bank_name (cell_at r ''Banks'')) (rows ?df1) = map ?F ?ZB"
      by (simp add: filter_map comp_def)
    have br: "bank_records E df0 bank_name = map (record_of E) ?ZB"
      by (rule bank_records_zip [OF fin])
    show ?thesis
    proof (cases "?ZB = []")
      case True
      then have "select_bank E ?df1 bank_name = Inl (ValueError No_Data_For_Bank)"
        by (simp only: select_bank_eq [OF hb1] flt) simp
      with True show ?thesis
        by (simp add: start cy fin br)
    next
      case False
      let ?bank_df = "?df\<lparr>rows := map ?F ?ZB\<rparr>"
      have "?df1\<lparr>rows := map ?F ?ZB\<rparr> = ?bank_df" by simp
      with False have sb: "select_bank E ?df1 bank_name = Inr ?bank_df"
        by (simp only: select_bank_eq [OF hb1] flt) simp
      let ?Z = "filter (\<lambda>z. the_int (PyFloat (snd z)) \<le> current_year - 1) ?ZB"
      let ?f = "?bank_df\<lparr>rows := map (numeric_row E)
            (filter (\<lambda>r. the_int (cell_at r ''Year'') \<le> current_year - 1) (rows ?bank_df))\<rparr>"
      have h: "history E ?bank_df current_year = Inr (groupby_sum ?f)"
        by (rule history_eq) (use hy hc ho in simp_all)
      have rows_f: "rows ?f = map (\<lambda>z. numeric_row E (?F z)) ?Z"
        by (simp add: filter_map comp_def)
      have "groupby_sum ?f = grouped_by_year E df0 bank_name current_year"
        by (rule grouped_rows_eq [OF fin refl rows_f])
      with False show ?thesis
        by (simp add: start cy sb h fin br)
    qed
  qed
qed

lemma group_history_contract:
  assumes "group_history E df0 bank_name current_year = Inr g"
  shows "input_contract df0"
proof (rule ccontr)
  assume nic: "\<not> input_contract df0"
  let ?df = "strip_columns df0"
  from assms have banks: "''Banks'' \<in> set (columns ?df)"
    by (auto simp: group_history_def Let_def split: if_splits)
  with assms obtain df1 bank_df where
    cy: "clean_years E ?df = Inr df1" and sb: "select_bank E df1 bank_name = Inr bank_df"
    and h: "history E bank_df current_year = Inr g"
    by (auto simp: group_history_def Let_def and_then_eq_Inr split: if_splits)
  from cy have hy: "has_column ?df ''Year''"
    using clean_years_no_column [of ?df E] by auto
  from cy have df1: "columns df1 = columns ?df"
    by (auto simp: clean_years_eq [OF hy] split: if_splits)
  from sb have hb1: "has_column df1 ''Banks''"
    using select_bank_no_column [of df1 E bank_name] by auto
  from sb have bdf: "columns bank_df = columns df1"
    by (auto simp: select_bank_eq [OF hb1] split: if_splits)
  from h have hh: "has_column bank_df ''Year'' \<and> has_column bank_df ''Capital Expenditure''
      \<and> has_column bank_df ''Operating Expenditure''"
    using history_no_column [of bank_df E current_year] by auto
  from hy hb1 hh df1 bdf have "input_contract df0"
    by (simp add: input_contract_def has_column_def)
  with nic show False by simp
qed

lemma group_history_Inr:
  assumes "group_history E df0 bank_name current_year = Inr g"
  shows "g = grouped_by_year E df0 bank_name current_year"
    and "bank_records E df0 bank_name \<noteq> []"
    and "list_all (\<lambda>z. isfinite (snd z)) (year_rows E (strip_columns df0))"
  using assms group_history_eq [OF group_history_contract [OF assms]]
  by (auto split: if_splits)

lemma history_needs_records:
  "historical_years E df0 bank_name current_year \<noteq> [] \<Longrightarrow> bank_records E df0 bank_name \<noteq> []"
  by (auto simp: historical_years_def historical_records_def)


lemma grouped_columns [simp]:
  "columns (grouped_by_year E df0 bank_name current_year)
     = [''Year'', ''Capital Expenditure'', ''Operating Expenditure'']"
  by (simp add: grouped_by_year_def)

lemma grouped_length [simp]:
  "length (rows (grouped_by_year E df0 bank_name current_year))
     = length (historical_years E df0 bank_name current_year)"
  by (simp add: grouped_by_year_def)

lemma grouped_year_series:
  "series (grouped_by_year E df0 bank_name current_year) ''Year''
     = Inr (map PyInt (historical_years E df0 bank_name current_year))"
  by (simp add: series_def grouped_by_year_def comp_def cell_at_def Let_def)

lemma grouped_has_columns:
  "has_column (grouped_by_year E df0 bank_name current_year) ''Capital Expenditure''"
  "has_column (grouped_by_year E df0 bank_name current_year) ''Operating Expenditure''"
  by (simp_all add: has_column_def)

subsection \<open>run_analysis: the forecast table\<close>


lemma pred_frame_Inr:
  assumes "pred_frame years capex opex = Inr pred"
  shows "\<exists>ts. pred = \<lparr>columns = [''Year'', ''Forecast_CapEx'', ''Forecast_OpEx''],
                       rows = map pred_row ts\<rparr> \<and> map fst ts = years"
proof -
  let ?ts = "map (\<lambda>k. (years ! k, padded capex k, padded opex k)) [0 ..< length years]"
  from assms have "pred = \<lparr>columns = [''Year'', ''Forecast_CapEx'', ''Forecast_OpEx''],
                       rows = map pred_row ?ts\<rparr>"
    by (auto simp: pred_frame_def pred_row_def comp_def split: if_splits)
  moreover have "map fst ?ts = years"
    by (simp add: comp_def map_nth)
  ultimately show ?thesis by blast
qed

lemma pred_frame_total:
  "length capex = length years \<Longrightarrow> length opex = length years \<Longrightarrow>
     \<exists>pred. pred_frame years capex opex = Inr pred"
  by (simp add: pred_frame_def)


lemma forecast_frame_grouped:
  "forecast_frame E (grouped_by_year E df0 bank_name current_year) n =
     (if length (historical_years E df0 bank_name current_year) < 3
      then Inl (ValueError (Not_Enough_History (length (historical_years E df0 bank_name current_year))))
      else
        and_then (forecast_expenditure E
           (map (\<lambda>r. cell_at r ''Capital Expenditure'')
              (rows (grouped_by_year E df0 bank_name current_year))) n) (\<lambda>capex_forecast.
        and_then (forecast_expenditure E
           (map (\<lambda>r. cell_at r ''Operating Expenditure'')
              (rows (grouped_by_year E df0 bank_name current_year))) n) (\<lambda>opex_forecast.
          pred_frame [Max (set (historical_years E df0 bank_name current_year)) + 1 ..
                      Max (set (historical_years E df0 bank_name current_year)) + n]
            capex_forecast opex_forecast)))"
proof -
  have mx: "set (map the_int (map PyInt ys)) = set ys" for ys
    by (simp add: image_image)
  have ar: "a + 1 + n - 1 = a + n" for a n :: int
    by simp
  show ?thesis
    by (simp only: forecast_frame_def grouped_length grouped_year_series and_then_Inr Let_def mx ar
        series_has_column [OF grouped_has_columns(1)] series_has_column [OF grouped_has_columns(2)])
qed

lemma forecast_frame_Inr:
  assumes "forecast_frame E (grouped_by_year E df0 bank_name current_year) n = Inr pred"
  shows "3 \<le> length (historical_years E df0 bank_name current_year) \<and>
    (\<exists>ts. pred = \<lparr>columns = [''Year'', ''Forecast_CapEx'', ''Forecast_OpEx''],
                   rows = map pred_row ts\<rparr> \<and>
          map fst ts = [Max (set (historical_years E df0 bank_name current_year)) + 1 ..
                        Max (set (historical_years E df0 bank_name current_year)) + n])"
proof -
  let ?L = "Max (set (historical_years E df0 bank_name current_year))"
  from assms have len: "3 \<le> length (historical_years E df0 bank_name current_year)"
    by (auto simp: forecast_frame_grouped split: if_splits)
  from assms len obtain fc fo where "pred_frame [?L + 1 .. ?L + n] fc fo = Inr pred"
    by (auto simp: forecast_frame_grouped and_then_eq_Inr split: if_splits)
  from pred_frame_Inr [OF this] len show ?thesis by blast
qed


subsection \<open>run_analysis: the combined table\<close>

lemma pred_row_cells [simp]:
  "cell_at (pred_row t) ''Year'' = PyInt (fst t)"
  "cell_at (pred_row t) ''Forecast_CapEx'' = PyFloat (fst (snd t))"
  "cell_at (pred_row t) ''Forecast_OpEx'' = PyFloat (snd (snd t))"
  by (simp_all add: pred_row_def cell_at_def)

lemma full_row_cells [simp]:
  "cell_at (full_row E i a b g t) ''Year'' = PyInt (fst t)"
  "cell_at (full_row E i a b g t) ''Forecast_CapEx'' = PyFloat (fst (snd t))"
  "cell_at (full_row E i a b g t) ''Forecast_OpEx'' = PyFloat (snd (snd t))"
  "cell_at (full_row E i a b g t) ''Optimized_CapEx''
     = PyFloat (fst (optimize_point E i a b g (fst (snd t)) (snd (snd t))))"
  "cell_at (full_row E i a b g t) ''Optimized_OpEx''
     = PyFloat (snd (optimize_point E i a b g (fst (snd t)) (snd (snd t))))"
  by (simp_all add: full_row_def pred_row_def cell_at_def)

lemma read_pred_row:
  "read_forecast E \<lparr>columns = [''Year'', ''Forecast_CapEx'', ''Forecast_OpEx''], rows = rs\<rparr>
     (pred_row t) = Inr (snd t)"
  by (simp add: read_forecast_def row_get_def pred_row_def cell_at_def py_float_def)

lemma optimize_pred:
  "optimize_expenditures E
     \<lparr>columns = [''Year'', ''Forecast_CapEx'', ''Forecast_OpEx''], rows = map pred_row ts\<rparr> i a b g
   = Inr \<lparr>columns = [''Year'', ''Forecast_CapEx'', ''Forecast_OpEx'',
                      ''Optimized_CapEx'', ''Optimized_OpEx''],
          rows = map (full_row E i a b g) ts\<rparr>"
proof -
  let ?pred = "\<lparr>columns = [''Year'', ''Forecast_CapEx'', ''Forecast_OpEx''], rows = map pred_row ts\<rparr>"
  have rd: "map (read_forecast E ?pred) (map pred_row ts) = map Inr (map snd ts)"
    by (simp add: read_pred_row)
  show ?thesis
    by (simp add: optimize_expenditures_def optimize_loop_total [OF rd] assign_def
        map2_same comp_def full_row_def)
qed

lemma merged_row:
  "pred_row t ++ ((full_row E i a b g t |` set [''Year'', ''Optimized_CapEx'', ''Optimized_OpEx''])
       |` set [''Optimized_CapEx'', ''Optimized_OpEx'']) = full_row E i a b g t"
  by (rule ext) (simp add: map_add_def restrict_map_def full_row_def pred_row_def)

lemma merge_full:
  assumes "distinct (map fst ts)"
  shows "merge_left
      \<lparr>columns = [''Year'', ''Forecast_CapEx'', ''Forecast_OpEx''], rows = map pred_row ts\<rparr>
      \<lparr>columns = [''Year'', ''Optimized_CapEx'', ''Optimized_OpEx''],
       rows = map (\<lambda>t. full_row E i a b g t |` set [''Year'', ''Optimized_CapEx'', ''Optimized_OpEx'']) ts\<rparr>
      ''Year''
   = \<lparr>columns = [''Year'', ''Forecast_CapEx'', ''Forecast_OpEx'',
                  ''Optimized_CapEx'', ''Optimized_OpEx''],
      rows = map (full_row E i a b g) ts\<rparr>"
proof -
  let ?fr = "full_row E i a b g"
  let ?R = "\<lambda>t. ?fr t |` set [''Year'', ''Optimized_CapEx'', ''Optimized_OpEx'']"
  have key: "cell_at (?R t) ''Year'' = PyInt (fst t)" for t
    by (simp add: cell_at_def restrict_map_def full_row_def pred_row_def)
  have lkey: "cell_at (pred_row t) ''Year'' = PyInt (fst t)" for t
    by (simp add: cell_at_def pred_row_def)
  have one: "filter (\<lambda>r. cell_at r ''Year'' = cell_at (pred_row t) ''Year'') (map ?R ts) = [?R t]"
    if "t \<in> set ts" for t
    unfolding filter_map comp_def key lkey
    using unique_key [OF assms that] by simp
  have body: "(case filter (\<lambda>r. cell_at r ''Year'' = cell_at (pred_row t) ''Year'') (map ?R ts) of
        [] \<Rightarrow> [pred_row t ++ (\<lambda>c. if c \<in> set [''Optimized_CapEx'', ''Optimized_OpEx'']
                                then Some (PyFloat NaN) else None)]
      | ms \<Rightarrow> map (\<lambda>r. pred_row t ++ (r |` set [''Optimized_CapEx'', ''Optimized_OpEx''])) ms)
      = [?fr t]"
    if "t \<in> set ts" for t
    by (simp only: one [OF that] list.case list.map merged_row)
  have "concat (map (\<lambda>l. case filter (\<lambda>r. cell_at r ''Year'' = cell_at l ''Year'') (map ?R ts) of
        [] \<Rightarrow> [l ++ (\<lambda>c. if c \<in> set [''Optimized_CapEx'', ''Optimized_OpEx'']
                                then Some (PyFloat NaN) else None)]
      | ms \<Rightarrow> map (\<lambda>r. l ++ (r |` set [''Optimized_CapEx'', ''Optimized_OpEx''])) ms)
      (map pred_row ts)) = concat (map (\<lambda>t. [?fr t]) ts)"
    unfolding map_map comp_def
    by (rule arg_cong [where f = concat], rule map_cong [OF refl]) (rule body)
  then have rows: "concat (map (\<lambda>l. case filter (\<lambda>r. cell_at r ''Year'' = cell_at l ''Year'') (map ?R ts) of
        [] \<Rightarrow> [l ++ (\<lambda>c. if c \<in> set [''Optimized_CapEx'', ''Optimized_OpEx'']
                                then Some (PyFloat NaN) else None)]
      | ms \<Rightarrow> map (\<lambda>r. l ++ (r |` set [''Optimized_CapEx'', ''Optimized_OpEx''])) ms)
      (map pred_row ts)) = map ?fr ts"
    by simp
  have extra: "filter (\<lambda>c. c \<noteq> ''Year'') [''Year'', ''Optimized_CapEx'', ''Optimized_OpEx'']
      = [''Optimized_CapEx'', ''Optimized_OpEx'']"
    by simp
  show ?thesis
    unfolding merge_left_def Let_def
    by (simp only: frame.simps extra rows append.simps)
qed

lemma project_full:
  "project \<lparr>columns = [''Year'', ''Forecast_CapEx'', ''Forecast_OpEx'',
                      ''Optimized_CapEx'', ''Optimized_OpEx''], rows = map f ts\<rparr>
       [''Year'', ''Optimized_CapEx'', ''Optimized_OpEx'']
     = Inr \<lparr>columns = [''Year'', ''Optimized_CapEx'', ''Optimized_OpEx''],
            rows = map (\<lambda>t. f t |` set [''Year'', ''Optimized_CapEx'', ''Optimized_OpEx'']) ts\<rparr>"
  by (simp add: project_def comp_def)

lemma combine_pred:
  assumes "distinct (map fst ts)"
  shows "combine E \<lparr>columns = [''Year'', ''Forecast_CapEx'', ''Forecast_OpEx''], rows = map pred_row ts\<rparr>
   = Inr \<lparr>columns = [''Year'', ''Forecast_CapEx'', ''Forecast_OpEx'',
                      ''Optimized_CapEx'', ''Optimized_OpEx''],
          rows = map (full_row E (Fl 0.03) (Fl 0.5) (Fl 0.5) (Fl 0.001)) ts\<rparr>"
  by (simp only: combine_def optimize_pred and_then_Inr project_full merge_full [OF assms])

lemma full_column_sums:
  fixes E i a b g ts
  defines "full \<equiv> \<lparr>columns = [''Year'', ''Forecast_CapEx'', ''Forecast_OpEx'',
                      ''Optimized_CapEx'', ''Optimized_OpEx''],
          rows = map (full_row E i a b g) ts\<rparr>"
  shows "series full ''Year'' = Inr (map (\<lambda>t. PyInt (fst t)) ts)"
    and "column_sum full ''Forecast_CapEx'' = Inr (nansum (map (\<lambda>t. fst (snd t)) ts))"
    and "column_sum full ''Forecast_OpEx'' = Inr (nansum (map (\<lambda>t. snd (snd t)) ts))"
    and "column_sum full ''Optimized_CapEx''
       = Inr (nansum (map (\<lambda>t. fst (optimize_point E i a b g (fst (snd t)) (snd (snd t)))) ts))"
    and "column_sum full ''Optimized_OpEx''
       = Inr (nansum (map (\<lambda>t. snd (optimize_point E i a b g (fst (snd t)) (snd (snd t)))) ts))"
  by (simp_all add: full_def column_sum_def series_def comp_def)

lemma pred_column_sums:
  fixes ts
  defines "pred \<equiv> \<lparr>columns = [''Year'', ''Forecast_CapEx'', ''Forecast_OpEx''],
          rows = map pred_row ts\<rparr>"
  shows "column_sum pred ''Forecast_CapEx'' = Inr (nansum (map (\<lambda>t. fst (snd t)) ts))"
    and "column_sum pred ''Forecast_OpEx'' = Inr (nansum (map (\<lambda>t. snd (snd t)) ts))"
  by (simp_all add: pred_def column_sum_def series_def comp_def)

subsection \<open>run_analysis as a whole\<close>

lemma run_analysis_Inr:
  assumes "run_analysis E df0 bank_name n current_year = Inr res"
  shows "\<exists>ts. combined_df res =
           \<lparr>columns = [''Year'', ''Forecast_CapEx'', ''Forecast_OpEx'',
                        ''Optimized_CapEx'', ''Optimized_OpEx''],
            rows = map (full_row E (Fl 0.03) (Fl 0.5) (Fl 0.5) (Fl 0.001)) ts\<rparr>
      \<and> map fst ts = [Max (set (historical_years E df0 bank_name current_year)) + 1 ..
                      Max (set (historical_years E df0 bank_name current_year)) + n]
      \<and> 3 \<le> length (historical_years E df0 bank_name current_year)
      \<and> metrics (combined_df res) = Inr (kpi_metrics res)
      \<and> group_history E df0 bank_name current_year
           = Inr (grouped_by_year E df0 bank_name current_year)"
proof -
  from assms obtain g pred full k recs where
    gh: "group_history E df0 bank_name current_year = Inr g" and
    ff: "forecast_frame E g n = Inr pred" and
    cb: "combine E pred = Inr full" and
    mt: "metrics full = Inr k" and
    res: "res = \<lparr>combined_df = full, kpi_metrics = k, recommendations = recs\<rparr>"
    by (auto simp: run_analysis_def and_then_eq_Inr)
  from group_history_Inr(1) [OF gh] have g: "g = grouped_by_year E df0 bank_name current_year" .
  from forecast_frame_Inr [OF ff [unfolded g]] obtain ts where
    len: "3 \<le> length (historical_years E df0 bank_name current_year)" and
    pred: "pred = \<lparr>columns = [''Year'', ''Forecast_CapEx'', ''Forecast_OpEx''],
                   rows = map pred_row ts\<rparr>" and
    ys: "map fst ts = [Max (set (historical_years E df0 bank_name current_year)) + 1 ..
                        Max (set (historical_years E df0 bank_name current_year)) + n]"
    by blast
  from ys have "distinct (map fst ts)" by simp
  from combine_pred [OF this, of E] cb pred
  have full: "full = \<lparr>columns = [''Year'', ''Forecast_CapEx'', ''Forecast_OpEx'',
                      ''Optimized_CapEx'', ''Optimized_OpEx''],
          rows = map (full_row E (Fl 0.03) (Fl 0.5) (Fl 0.5) (Fl 0.001)) ts\<rparr>"
    by simp
  show ?thesis
    using full ys len mt gh g by (intro exI [of _ ts]) (simp add: res)
qed

lemma run_analysis_total:
  assumes gh: "group_history E df0 bank_name current_year = Inr g"
    and len: "3 \<le> length (rows g)"
    and fc: "forecast_expenditure E (map (\<lambda>r. cell_at r ''Capital Expenditure'') (rows g)) n = Inr fc"
    and fo: "forecast_expenditure E (map (\<lambda>r. cell_at r ''Operating Expenditure'') (rows g)) n = Inr fo"
    and lfc: "length fc = nat n" and lfo: "length fo = nat n"
  shows "\<exists>res. run_analysis E df0 bank_name n current_year = Inr res"
proof -
  let ?L = "Max (set (historical_years E df0 bank_name current_year))"
  from group_history_Inr(1) [OF gh] have g: "g = grouped_by_year E df0 bank_name current_year" .
  from len have len': "\<not> length (historical_years E df0 bank_name current_year) < 3"
    by (simp add: g)
  have "length [?L + 1 .. ?L + n] = nat n" by simp
  with lfc lfo obtain pred where pf: "pred_frame [?L + 1 .. ?L + n] fc fo = Inr pred"
    using pred_frame_total [of fc "[?L + 1 .. ?L + n]" fo] by auto
  have ff: "forecast_frame E g n = Inr pred"
    unfolding g forecast_frame_grouped
    using len' fc fo pf by (simp add: g)
  from pred_frame_Inr [OF pf] obtain ts where
    pred: "pred = \<lparr>columns = [''Year'', ''Forecast_CapEx'', ''Forecast_OpEx''],
                   rows = map pred_row ts\<rparr>" and
    ys: "map fst ts = [?L + 1 .. ?L + n]"
    by blast
  from ys have "distinct (map fst ts)" by simp
  note cb = combine_pred [OF this, of E]
  let ?full = "\<lparr>columns = [''Year'', ''Forecast_CapEx'', ''Forecast_OpEx'',
                      ''Optimized_CapEx'', ''Optimized_OpEx''],
          rows = map (full_row E (Fl 0.03) (Fl 0.5) (Fl 0.5) (Fl 0.001)) ts\<rparr>"
  from metrics_Inr [OF full_column_sums(2-5)] obtain k where k: "metrics ?full = Inr k"
    by blast
  from recommendations_Inr [OF pred_column_sums full_column_sums(4,5)]
  obtain r where r: "generate_recommendations pred ?full = Inr r"
    unfolding pred by blast
  have "run_analysis E df0 bank_name n current_year
      = Inr \<lparr>combined_df = ?full, kpi_metrics = k, recommendations = r\<rparr>"
    by (simp only: run_analysis_def gh ff cb [folded pred] k r and_then_Inr)
  then show ?thesis by blast
qed


lemma column_members:
  assumes "column_of_result (map_sum id combined_df (Inr res)) c = Inr vs"
    and "r \<in> set (rows (combined_df res))"
  shows "cell_at r c \<in> set vs"
  using assms by (auto simp: column_of_result_def series_Inr_iff)

subsection \<open>database.py\<close>

lemma filter_appended_user:
  "name \<notin> set (map username rs) \<Longrightarrow>
     filter (\<lambda>r. username r = name) (rs @ [\<lparr>user_id = i, username = name, password_hash = h\<rparr>])
       = [\<lparr>user_id = i, username = name, password_hash = h\<rparr>]"
  by (induction rs) auto

subsection \<open>The concrete inputs\<close>

lemma read_demo_forecast:
  "read_forecast E demo_forecast (rows demo_forecast ! 0) = Inr (Fl 100, Fl 200)"
  "read_forecast E demo_forecast (rows demo_forecast ! 1) = Inr (Fl (-100), Fl 50)"
  by (simp_all add: read_forecast_def row_get_def demo_forecast_def forecast_row_def cell_at_def
      py_float_def)

lemma demo_forecast_readable:
  "\<forall>r \<in> set (rows demo_forecast). \<exists>p. read_forecast E demo_forecast r = Inr p"
  by (simp add: read_forecast_def row_get_def demo_forecast_def forecast_row_def cell_at_def
      py_float_def)

lemma demo_sheet_contract: "input_contract demo_sheet"
  by code_simp

lemma demo_sheet_finite:
  "list_all (\<lambda>z. isfinite (snd z)) (year_rows demo_env (strip_columns demo_sheet))"
  by code_simp

lemma demo_sheet_bank: "bank_records demo_env demo_sheet ''hdfc'' \<noteq> []"
  by code_simp

lemma demo_years: "historical_years demo_env demo_sheet ''hdfc'' 2025 = [2019, 2020, 2021]"
  by code_simp


lemma demo_capex_forecast:
  "forecast_expenditure demo_env (map (\<lambda>r. cell_at r ''Capital Expenditure'')
      (rows (grouped_by_year demo_env demo_sheet ''hdfc'' 2025))) 2 = Inr [Fl 140, Fl 140]"
  by code_simp

lemma demo_opex_forecast:
  "forecast_expenditure demo_env (map (\<lambda>r. cell_at r ''Operating Expenditure'')
      (rows (grouped_by_year demo_env demo_sheet ''hdfc'' 2025))) 2 = Inr [Fl 220, Fl 220]"
  by code_simp


lemma corner_run_forecasts:
  "column_of_result (map_sum id combined_df (run_analysis corner_env demo_sheet ''hdfc'' 2 2025))
     ''Forecast_CapEx'' = Inr [PyFloat (Fl 140), PyFloat (Fl 140)]"
  "column_of_result (map_sum id combined_df (run_analysis corner_env demo_sheet ''hdfc'' 2 2025))
     ''Forecast_OpEx'' = Inr [PyFloat (Fl 220), PyFloat (Fl 220)]"
  by code_simp+

section \<open>The claims\<close>

subsection \<open>Claim C1: the optimized values and their floors\<close>




subsection \<open>Claim C2: the forecast years\<close>

text \<open>
  Claim C2. For \<open>forecast_years >= 1\<close>: whenever \<open>run_analysis\<close> returns, the bank has at
  least 3 historical years, and the combined table has exactly \<open>forecast_years\<close> rows whose
  Year column is \<open>last + 1, ..., last + forecast_years\<close>, where \<open>last\<close> is the largest
  historical year. And it returns for every sheet with the four columns, no infinite year
  and at least 3 historical years of the bank, when each of the two forecasts returns
  \<open>forecast_years\<close> values.
\<close>

theorem forecast_years_rows:
  assumes "1 \<le> n"
  shows "(run_analysis E df0 bank_name n current_year = Inr res \<longrightarrow>
           3 \<le> length (historical_years E df0 bank_name current_year) \<and>
           int (length (rows (combined_df res))) = n \<and>
           series (combined_df res) ''Year''
             = Inr (map PyInt [Max (set (historical_years E df0 bank_name current_year)) + 1 ..
                               Max (set (historical_years E df0 bank_name current_year)) + n])) \<and>
         (input_contract df0 \<and>
          list_all (\<lambda>z. isfinite (snd z)) (year_rows E (strip_columns df0)) \<and>
          3 \<le> length (historical_years E df0 bank_name current_year) \<and>
          forecast_expenditure E (map (\<lambda>r. cell_at r ''Capital Expenditure'')
             (rows (grouped_by_year E df0 bank_name current_year))) n = Inr fc \<and>
          forecast_expenditure E (map (\<lambda>r. cell_at r ''Operating Expenditure'')
             (rows (grouped_by_year E df0 bank_name current_year))) n = Inr fo \<and>
          length fc = nat n \<and> length fo = nat n \<longrightarrow>
            (\<exists>res. run_analysis E df0 bank_name n current_year = Inr res))"
proof (intro conjI impI)
  assume "run_analysis E df0 bank_name n current_year = Inr res"
  from run_analysis_Inr [OF this] obtain ts where
    full: "combined_df res =
           \<lparr>columns = [''Year'', ''Forecast_CapEx'', ''Forecast_OpEx'',
                        ''Optimized_CapEx'', ''Optimized_OpEx''],
            rows = map (full_row E (Fl 0.03) (Fl 0.5) (Fl 0.5) (Fl 0.001)) ts\<rparr>" and
    ys: "map fst ts = [Max (set (historical_years E df0 bank_name current_year)) + 1 ..
                      Max (set (historical_years E df0 bank_name current_year)) + n]" and
    len: "3 \<le> length (historical_years E df0 bank_name current_year)"
    by blast
  from len show "3 \<le> length (historical_years E df0 bank_name current_year)" .
  from ys have "length (map fst ts) = nat n"
    by (simp only: length_upto)
  then have "length ts = nat n" by simp
  with assms show "int (length (rows (combined_df res))) = n"
    by (simp add: full)
  have "series (combined_df res) ''Year'' = Inr (map PyInt (map fst ts))"
    unfolding full full_column_sums(1) by (simp add: comp_def)
  then show "series (combined_df res) ''Year''
      = Inr (map PyInt [Max (set (historical_years E df0 bank_name current_year)) + 1 ..
                        Max (set (historical_years E df0 bank_name current_year)) + n])"
    by (simp only: ys)
next
  assume a: "input_contract df0 \<and>
          list_all (\<lambda>z. isfinite (snd z)) (year_rows E (strip_columns df0)) \<and>
          3 \<le> length (historical_years E df0 bank_name current_year) \<and>
          forecast_expenditure E (map (\<lambda>r. cell_at r ''Capital Expenditure'')
             (rows (grouped_by_year E df0 bank_name current_year))) n = Inr fc \<and>
          forecast_expenditure E (map (\<lambda>r. cell_at r ''Operating Expenditure'')
             (rows (grouped_by_year E df0 bank_name current_year))) n = Inr fo \<and>
          length fc = nat n \<and> length fo = nat n"
  then have "historical_years E df0 bank_name current_year \<noteq> []" by auto
  then have "bank_records E df0 bank_name \<noteq> []"
    by (rule history_needs_records)
  with a have gh: "group_history E df0 bank_name current_year
      = Inr (grouped_by_year E df0 bank_name current_year)"
    by (simp add: group_history_eq)
  from a have "3 \<le> length (rows (grouped_by_year E df0 bank_name current_year))" by simp
  from run_analysis_total [OF gh this] a
  show "\<exists>res. run_analysis E df0 bank_name n current_year = Inr res" by blast
qed

theorem forecast_years_rows_witness:
  "\<exists>res. run_analysis demo_env demo_sheet ''hdfc'' 2 2025 = Inr res
     \<and> int (length (rows (combined_df res))) = 2
     \<and> series (combined_df res) ''Year'' = Inr [PyInt 2022, PyInt 2023]"
proof -
  have n: "(1::int) \<le> 2" by simp
  note claim = forecast_years_rows [OF n, of demo_env demo_sheet "''hdfc''" 2025]
  have "\<exists>res. run_analysis demo_env demo_sheet ''hdfc'' 2 2025 = Inr res"
    using claim [where fc = "[Fl 140, Fl 140]" and fo = "[Fl 220, Fl 220]"]
      demo_sheet_contract demo_sheet_finite demo_years demo_capex_forecast demo_opex_forecast
    by simp
  then obtain res where res: "run_analysis demo_env demo_sheet ''hdfc'' 2 2025 = Inr res"
    by blast
  have mx: "Max (set (historical_years demo_env demo_sheet ''hdfc'' 2025)) = 2021"
    by (simp add: demo_years)
  have up: "[2021 + 1 .. 2021 + 2] = [2022, 2023 :: int]"
    by (simp add: upto.simps)
  from claim [of res] res have
    "int (length (rows (combined_df res))) = 2"
    "series (combined_df res) ''Year''
       = Inr (map PyInt [Max (set (historical_years demo_env demo_sheet ''hdfc'' 2025)) + 1 ..
                         Max (set (historical_years demo_env demo_sheet ''hdfc'' 2025)) + 2])"
    by blast+
  with res show ?thesis
    by (simp only: mx up) simp
qed

subsection \<open>Claim C3: the savings\<close>

text \<open>
  Claim C3, as amended. For a run of the pipeline that returns, if every forecast value
  of the combined table is finite and \<open>>= 0\<close>, and in each of its rows the point that the
  code takes from the solver has no larger objective value than the starting point
  (the forecast of that row), then the total optimized expenditure is at most the total
  forecast expenditure and \<open>total_savings >= 0\<close>.
\<close>

theorem total_savings_nonneg:
  assumes run: "run_analysis E df0 bank_name n current_year = Inr res"
    and nn: "\<forall>r \<in> set (rows (combined_df res)). \<exists>a b.
        cell_at r ''Forecast_CapEx'' = PyFloat (Fl a) \<and>
        cell_at r ''Forecast_OpEx'' = PyFloat (Fl b) \<and> 0 \<le> a \<and> 0 \<le> b \<and>
        no_worse_than_forecast E (Fl 0.03) (Fl 0.5) (Fl 0.5) (Fl 0.001) (Fl a) (Fl b)"
  shows "fge (total_forecast (kpi_metrics res)) (total_optimized (kpi_metrics res))
       \<and> fge (total_savings (kpi_metrics res)) (Fl 0)"
proof -
  let ?op = "\<lambda>t. optimize_point E (Fl 0.03) (Fl 0.5) (Fl 0.5) (Fl 0.001) (fst (snd t)) (snd (snd t))"
  let ?full = "\<lambda>ts. \<lparr>columns = [''Year'', ''Forecast_CapEx'', ''Forecast_OpEx'',
                        ''Optimized_CapEx'', ''Optimized_OpEx''],
            rows = map (full_row E (Fl 0.03) (Fl 0.5) (Fl 0.5) (Fl 0.001)) ts\<rparr>"
  from run_analysis_Inr [OF run] obtain ts where
    full: "combined_df res = ?full ts" and
    mt: "metrics (combined_df res) = Inr (kpi_metrics res)"
    by blast
  have row: "isfinite (fst (snd t)) \<and> isfinite (snd (snd t)) \<and>
      isfinite (fst (?op t)) \<and> isfinite (snd (?op t)) \<and>
      real_of (fst (?op t)) + real_of (snd (?op t))
        \<le> real_of (fst (snd t)) + real_of (snd (snd t))"
    if "t \<in> set ts" for t
  proof -
    from that have "full_row E (Fl 0.03) (Fl 0.5) (Fl 0.5) (Fl 0.001) t \<in> set (rows (combined_df res))"
      unfolding full by simp
    with nn obtain a b where ab: "fst (snd t) = Fl a" "snd (snd t) = Fl b" "0 \<le> a" "0 \<le> b"
      "no_worse_than_forecast E (Fl 0.03) (Fl 0.5) (Fl 0.5) (Fl 0.001) (Fl a) (Fl b)"
      by (fastforce simp only: full_row_cells cell.inject)
    from optimize_point_saves [OF ab(5,3,4)] obtain c e where
      "optimize_point E (Fl 0.03) (Fl 0.5) (Fl 0.5) (Fl 0.001) (Fl a) (Fl b) = (Fl c, Fl e)"
      "c + e \<le> a + b"
      by blast
    then show ?thesis
      by (simp only: ab fst_conv snd_conv isfinite.simps real_of_Fl)
  qed
  let ?A = "sum_list (map (\<lambda>t. real_of (fst (snd t))) ts)"
  let ?B = "sum_list (map (\<lambda>t. real_of (snd (snd t))) ts)"
  let ?C = "sum_list (map (\<lambda>t. real_of (fst (?op t))) ts)"
  let ?D = "sum_list (map (\<lambda>t. real_of (snd (?op t))) ts)"
  have sA: "nansum (map (\<lambda>t. fst (snd t)) ts) = Fl ?A"
    using row by (subst nansum_finite) (simp_all add: list_all_iff comp_def)
  have sB: "nansum (map (\<lambda>t. snd (snd t)) ts) = Fl ?B"
    using row by (subst nansum_finite) (simp_all add: list_all_iff comp_def)
  have sC: "nansum (map (\<lambda>t. fst (?op t)) ts) = Fl ?C"
    using row by (subst nansum_finite) (simp_all add: list_all_iff comp_def)
  have sD: "nansum (map (\<lambda>t. snd (?op t)) ts) = Fl ?D"
    using row by (subst nansum_finite) (simp_all add: list_all_iff comp_def)
  have "?C + ?D = sum_list (map (\<lambda>t. real_of (fst (?op t)) + real_of (snd (?op t))) ts)"
    by (simp add: sum_list_addf)
  also have "\<dots> \<le> sum_list (map (\<lambda>t. real_of (fst (snd t)) + real_of (snd (snd t))) ts)"
    by (rule sum_list_mono) (use row in blast)
  also have "\<dots> = ?A + ?B"
    by (simp add: sum_list_addf)
  finally have le: "?C + ?D \<le> ?A + ?B" .
  from metrics_Inr [OF full_column_sums(2-5), of E "Fl 0.03" "Fl 0.5" "Fl 0.5" "Fl 0.001" ts]
  obtain pct where
    "metrics (?full ts) = Inr \<lparr>total_savings = fsub (fadd (Fl ?A) (Fl ?B)) (fadd (Fl ?C) (Fl ?D)),
        savings_pct = pct, total_forecast = fadd (Fl ?A) (Fl ?B),
        total_optimized = fadd (Fl ?C) (Fl ?D)\<rparr>"
    unfolding sA sB sC sD by blast
  with mt full have k: "kpi_metrics res =
      \<lparr>total_savings = fsub (fadd (Fl ?A) (Fl ?B)) (fadd (Fl ?C) (Fl ?D)),
        savings_pct = pct, total_forecast = fadd (Fl ?A) (Fl ?B),
        total_optimized = fadd (Fl ?C) (Fl ?D)\<rparr>"
    by simp
  from le show ?thesis
    unfolding k by (simp add: fsub_def)
qed

theorem total_savings_nonneg_witness:
  "\<exists>res. run_analysis corner_env demo_sheet ''hdfc'' 2 2025 = Inr res
     \<and> fge (total_forecast (kpi_metrics res)) (total_optimized (kpi_metrics res))
     \<and> fge (total_savings (kpi_metrics res)) (Fl 0)"
proof -
  obtain res where res: "run_analysis corner_env demo_sheet ''hdfc'' 2 2025 = Inr res"
    using corner_run_forecasts(1)
    by (cases "run_analysis corner_env demo_sheet ''hdfc'' 2 2025")
       (simp_all add: column_of_result_def)
  have nn: "\<forall>r \<in> set (rows (combined_df res)). \<exists>a b.
        cell_at r ''Forecast_CapEx'' = PyFloat (Fl a) \<and>
        cell_at r ''Forecast_OpEx'' = PyFloat (Fl b) \<and> 0 \<le> a \<and> 0 \<le> b \<and>
        no_worse_than_forecast corner_env (Fl 0.03) (Fl 0.5) (Fl 0.5) (Fl 0.001) (Fl a) (Fl b)"
  proof
    fix r assume r: "r \<in> set (rows (combined_df res))"
    from column_members [OF corner_run_forecasts(1) [unfolded res] r]
    have "cell_at r ''Forecast_CapEx'' = PyFloat (Fl 140)" by simp
    moreover from column_members [OF corner_run_forecasts(2) [unfolded res] r]
    have "cell_at r ''Forecast_OpEx'' = PyFloat (Fl 220)" by simp
    moreover have "no_worse_than_forecast corner_env (Fl 0.03) (Fl 0.5) (Fl 0.5) (Fl 0.001) (Fl 140) (Fl 220)"
      by (rule corner_no_worse) simp_all
    ultimately show "\<exists>a b. cell_at r ''Forecast_CapEx'' = PyFloat (Fl a) \<and>
        cell_at r ''Forecast_OpEx'' = PyFloat (Fl b) \<and> 0 \<le> a \<and> 0 \<le> b \<and>
        no_worse_than_forecast corner_env (Fl 0.03) (Fl 0.5) (Fl 0.5) (Fl 0.001) (Fl a) (Fl b)"
      by (intro exI [of _ 140] exI [of _ 220]) simp
  qed
  from total_savings_nonneg [OF res nn] res show ?thesis by blast
qed

text \<open>
  Claim C3 as stated fails: for a bank whose capital expenditure is \<open>-100\<close> and whose
  operating expenditure is \<open>50\<close> in every year, the forecast of each of the two years is
  \<open>(-100, 50)\<close>, the constrained minimum is \<open>(0, 35)\<close>, and so the forecast total is \<open>-100\<close>,
  the optimized total is \<open>70\<close>, and \<open>total_savings\<close> is \<open>-170\<close>.
\<close>

theorem credit_costs_more:
  "map_sum id kpi_metrics (run_analysis corner_env credit_sheet ''hdfc'' 2 2025)
     = Inr \<lparr>total_savings = Fl (- 170), savings_pct = Fl 170,
            total_forecast = Fl (- 100), total_optimized = Fl 70\<rparr>
   \<and> \<not> fge (Fl (- 170)) (Fl 0) \<and> \<not> fge (Fl (- 100)) (Fl 70)"
  by code_simp

subsection \<open>Claim C4: too little history\<close>



subsection \<open>Claim C5: the fallback\<close>

text \<open>
  Claim C5. Whenever the solver reports failure or returns a point that is not finite for
  a forecast year, the optimized point of that year is exactly
  \<open>(0.8 * pred_capex, 0.7 * pred_opex)\<close>.
\<close>

theorem fallback_is_floor:
  assumes "optimize_expenditures E df i a b g = Inr out"
    and "k < length (rows df)"
    and "read_forecast E df (rows df ! k) = Inr (pred_capex, pred_opex)"
    and "\<not> success (solve_row E i a b g pred_capex pred_opex)
         \<or> \<not> isfinite (fst (result_x (solve_row E i a b g pred_capex pred_opex)))
         \<or> \<not> isfinite (snd (result_x (solve_row E i a b g pred_capex pred_opex)))"
  shows "cell_at (rows out ! k) ''Optimized_CapEx'' = PyFloat (fmul (Fl 0.8) pred_capex)
       \<and> cell_at (rows out ! k) ''Optimized_OpEx'' = PyFloat (fmul (Fl 0.7) pred_opex)"
proof -
  from assms(4) have "\<not> accepted (solve_row E i a b g pred_capex pred_opex)"
    by (auto simp: accepted_def)
  then show ?thesis
    by (simp add: optimize_expenditures_row [OF assms(1-3)] fallback_point cell_at_def)
qed

theorem fallback_is_floor_witness:
  "\<exists>out. optimize_expenditures failing_env demo_forecast (Fl 0.03) (Fl 0.5) (Fl 0.5) (Fl 0.001) = Inr out
     \<and> cell_at (rows out ! 0) ''Optimized_CapEx'' = PyFloat (Fl 80)
     \<and> cell_at (rows out ! 0) ''Optimized_OpEx'' = PyFloat (Fl 140)"
proof -
  obtain out where
    out: "optimize_expenditures failing_env demo_forecast (Fl 0.03) (Fl 0.5) (Fl 0.5) (Fl 0.001) = Inr out"
    using optimize_expenditures_total [OF demo_forecast_readable] by blast
  have k: "0 < length (rows demo_forecast)"
    by (simp add: demo_forecast_def)
  have fails: "\<not> success (solve_row failing_env (Fl 0.03) (Fl 0.5) (Fl 0.5) (Fl 0.001) (Fl 100) (Fl 200))
      \<or> \<not> isfinite (fst (result_x (solve_row failing_env (Fl 0.03) (Fl 0.5) (Fl 0.5) (Fl 0.001) (Fl 100) (Fl 200))))
      \<or> \<not> isfinite (snd (result_x (solve_row failing_env (Fl 0.03) (Fl 0.5) (Fl 0.5) (Fl 0.001) (Fl 100) (Fl 200))))"
    by (simp add: solve_row_def failing_env_def demo_env_def failing_solver_def)
  from fallback_is_floor [OF out k read_demo_forecast(1) fails] out
  show ?thesis by simp
qed

subsection \<open>Claim C6: the division guard\<close>

text \<open>
  Claim C6. Neither \<open>run_analysis\<close> (its metrics) nor \<open>generate_recommendations\<close> raises a
  division by zero, whatever the frames hold, and \<open>savings_pct\<close> is 0 when the total
  forecast is 0.
\<close>

theorem savings_pct_guarded:
  "metrics full_df \<noteq> Inl ZeroDivisionError \<and>
   generate_recommendations pred_df opt_df \<noteq> Inl ZeroDivisionError \<and>
   (metrics full_df = Inr k \<and> total_forecast k = Fl 0 \<longrightarrow> savings_pct k = Fl 0) \<and>
   (generate_recommendations pred_df opt_df = Inr r \<and>
    column_sum pred_df ''Forecast_CapEx'' = Inr fc \<and>
    column_sum pred_df ''Forecast_OpEx'' = Inr fo \<and> nansum [fc, fo] = Fl 0
      \<longrightarrow> rec_savings_pct r = Fl 0)"
proof (intro conjI impI)
  show "metrics full_df \<noteq> Inl ZeroDivisionError"
    using metrics_cases [of full_df] metrics_Inr [of full_df] by (metis Inl_Inr_False sum.inject(1))
  show "generate_recommendations pred_df opt_df \<noteq> Inl ZeroDivisionError"
    using recommendations_cases [of pred_df opt_df] recommendations_Inr [of pred_df _ _ opt_df]
    by (metis Inl_Inr_False sum.inject(1))
next
  assume a: "metrics full_df = Inr k \<and> total_forecast k = Fl 0"
  with metrics_cases [of full_df] obtain fc fo oc oo where
    cs: "column_sum full_df ''Forecast_CapEx'' = Inr fc"
      "column_sum full_df ''Forecast_OpEx'' = Inr fo"
      "column_sum full_df ''Optimized_CapEx'' = Inr oc"
      "column_sum full_df ''Optimized_OpEx'' = Inr oo"
    by auto
  from metrics_Inr [OF cs] a show "savings_pct k = Fl 0" by auto
next
  assume a: "generate_recommendations pred_df opt_df = Inr r \<and>
    column_sum pred_df ''Forecast_CapEx'' = Inr fc \<and>
    column_sum pred_df ''Forecast_OpEx'' = Inr fo \<and> nansum [fc, fo] = Fl 0"
  with recommendations_cases [of pred_df opt_df] obtain oc oo where
    cs: "column_sum opt_df ''Optimized_CapEx'' = Inr oc"
      "column_sum opt_df ''Optimized_OpEx'' = Inr oo"
    by auto
  from a have "column_sum pred_df ''Forecast_CapEx'' = Inr fc"
    "column_sum pred_df ''Forecast_OpEx'' = Inr fo" by simp_all
  from recommendations_Inr [OF this cs] a show "rec_savings_pct r = Fl 0" by auto
qed

theorem savings_pct_guarded_witness:
  "(\<exists>k. metrics zero_frame = Inr k \<and> total_forecast k = Fl 0 \<and> savings_pct k = Fl 0) \<and>
   (\<exists>r. generate_recommendations zero_frame zero_frame = Inr r \<and> rec_savings_pct r = Fl 0)"
proof -
  have cs: "column_sum zero_frame ''Forecast_CapEx'' = Inr (Fl 0)"
    "column_sum zero_frame ''Forecast_OpEx'' = Inr (Fl 0)"
    "column_sum zero_frame ''Optimized_CapEx'' = Inr (Fl 0)"
    "column_sum zero_frame ''Optimized_OpEx'' = Inr (Fl 0)"
    by (simp_all add: column_sum_def series_def zero_frame_def cell_at_def the_float_def nansum_def)
  from metrics_Inr [OF cs] obtain k where
    k: "metrics zero_frame = Inr k" "total_forecast k = Fl 0"
    by auto
  from recommendations_Inr [OF cs] obtain r where
    r: "generate_recommendations zero_frame zero_frame = Inr r"
    by auto
  have z: "nansum [Fl 0, Fl 0] = Fl 0"
    by (simp add: nansum_def)
  from savings_pct_guarded [of zero_frame zero_frame zero_frame k r "Fl 0" "Fl 0"] k r cs z
  show ?thesis by simp
qed

subsection \<open>Claim C7: a second signup\<close>

text \<open>
  Claim C7. For a name that the table already holds, \<open>add_user\<close> returns \<open>None\<close> and leaves
  the database, and so the stored hash, as it was; and after a signup that succeeded, a
  second signup with the same name fails and the hash of the first is still the stored one.
\<close>

theorem duplicate_signup_rejected:
  "(name \<in> set (map username (user_rows t)) \<longrightarrow>
      add_user (Some t) name h2 = (Some t, Inr None) \<and>
      check_user (fst (add_user (Some t) name h2)) name = check_user (Some t) name \<and>
      check_user (Some t) name \<noteq> None) \<and>
   (add_user db name h1 = (db1, Inr (Some uid)) \<longrightarrow>
      add_user db1 name h2 = (db1, Inr None) \<and> check_user db1 name = Some h1)"
proof (intro conjI impI)
  assume present: "name \<in> set (map username (user_rows t))"
  then show "add_user (Some t) name h2 = (Some t, Inr None)"
    by (simp add: add_user_def)
  then show "check_user (fst (add_user (Some t) name h2)) name = check_user (Some t) name"
    by simp
  from present have "filter (\<lambda>r. username r = name) (user_rows t) \<noteq> []"
    by (auto simp: filter_empty_conv)
  then show "check_user (Some t) name \<noteq> None"
    by (auto simp: check_user_def split: list.splits)
next
  assume first: "add_user db name h1 = (db1, Inr (Some uid))"
  then obtain t0 where db: "db = Some t0" and fresh: "name \<notin> set (map username (user_rows t0))"
    and db1: "db1 = Some \<lparr>user_rows = user_rows t0 @
        [\<lparr>user_id = uid, username = name, password_hash = h1\<rparr>], seq = uid\<rparr>"
    by (auto simp: add_user_def Let_def split: option.splits if_splits)
  show "add_user db1 name h2 = (db1, Inr None)"
    by (simp add: db1 add_user_def)
  show "check_user db1 name = Some h1"
    using filter_appended_user [OF fresh] by (simp add: db1 check_user_def)
qed

theorem duplicate_signup_rejected_witness:
  "add_user (setup_database None) ''ann@gmail.com'' ''hash-1'' = (demo_db, Inr (Some 1)) \<and>
   add_user demo_db ''ann@gmail.com'' ''hash-2'' = (demo_db, Inr None) \<and>
   check_user demo_db ''ann@gmail.com'' = Some ''hash-1''"
proof -
  have first: "add_user (setup_database None) ''ann@gmail.com'' ''hash-1'' = (demo_db, Inr (Some 1))"
    by (simp add: demo_db_def add_user_def setup_database_def)
  have present: "''ann@gmail.com'' \<in> set (map username (user_rows (the demo_db)))"
    by (simp add: demo_db_def)
  have some: "Some (the demo_db) = demo_db"
    by (simp add: demo_db_def)
  from duplicate_signup_rejected [of "''ann@gmail.com''" "the demo_db" "''hash-2''"
      "setup_database None" "''hash-1''" demo_db 1] first present
  show ?thesis by (simp add: some)
qed

subsection \<open>Claim C9: the cleaning\<close>

text \<open>
  Claim C9, as amended. Whenever the cleaning returns a grouped table, that table is: the
  Year column forward-filled and then coerced to numeric over the whole sheet, the rows
  without a numeric year dropped and the year truncated to an integer, the rows of the
  selected bank kept, of these the rows with a year of at most \<open>current_year - 1\<close> kept,
  the two expenditure columns coerced to numeric, and one row for each year, in
  increasing order, with the two expenditures summed over the rows of that year. It
  returns when the sheet has the four columns, no year is infinite and the bank has a row.
\<close>

theorem cleaning_groups_history:
  "(group_history E df0 bank_name current_year = Inr g \<longrightarrow>
      g = grouped_by_year E df0 bank_name current_year) \<and>
   (input_contract df0 \<and> list_all (\<lambda>z. isfinite (snd z)) (year_rows E (strip_columns df0))
      \<and> bank_records E df0 bank_name \<noteq> [] \<longrightarrow>
      group_history E df0 bank_name current_year = Inr (grouped_by_year E df0 bank_name current_year))"
proof (intro conjI impI)
  assume "group_history E df0 bank_name current_year = Inr g"
  then show "g = grouped_by_year E df0 bank_name current_year"
    by (rule group_history_Inr(1))
next
  assume a: "input_contract df0 \<and> list_all (\<lambda>z. isfinite (snd z)) (year_rows E (strip_columns df0))
      \<and> bank_records E df0 bank_name \<noteq> []"
  then have "input_contract df0" by simp
  from group_history_eq [OF this, of E bank_name current_year] a
  show "group_history E df0 bank_name current_year = Inr (grouped_by_year E df0 bank_name current_year)"
    by simp
qed

theorem cleaning_groups_history_witness:
  "group_history demo_env demo_sheet ''hdfc'' 2025 = Inr (grouped_by_year demo_env demo_sheet ''hdfc'' 2025)
   \<and> frame_groups (Inr (grouped_by_year demo_env demo_sheet ''hdfc'' 2025))
       = Inr [(Fl 2019, Fl 150, Fl 200), (Fl 2020, Fl 120, Fl 220), (Fl 2021, Fl 150, Fl 240)]"
proof -
  have g: "frame_groups (Inr (grouped_by_year demo_env demo_sheet ''hdfc'' 2025))
       = Inr [(Fl 2019, Fl 150, Fl 200), (Fl 2020, Fl 120, Fl 220), (Fl 2021, Fl 150, Fl 240)]"
    by code_simp
  have h: "input_contract demo_sheet \<and>
      list_all (\<lambda>z. isfinite (snd z)) (year_rows demo_env (strip_columns demo_sheet)) \<and>
      bank_records demo_env demo_sheet ''hdfc'' \<noteq> []"
    using demo_sheet_contract demo_sheet_finite demo_sheet_bank by blast
  from cleaning_groups_history [of demo_env demo_sheet "''hdfc''" 2025
      "grouped_by_year demo_env demo_sheet ''hdfc'' 2025"] h
  have "group_history demo_env demo_sheet ''hdfc'' 2025 = Inr (grouped_by_year demo_env demo_sheet ''hdfc'' 2025)"
    by blast
  with g show ?thesis by blast
qed

text \<open>
  Claim C9 as stated fails: the steps it lists keep a row of the year 2030 when
  \<open>current_year\<close> is 2025, and the grouped table of \<open>run_analysis\<close> has no such row.
\<close>

theorem future_rows_left_out:
  "frame_groups (group_history demo_env demo_sheet ''hdfc'' 2025)
     = Inr [(Fl 2019, Fl 150, Fl 200), (Fl 2020, Fl 120, Fl 220), (Fl 2021, Fl 150, Fl 240)] \<and>
   spec_groups demo_env demo_sheet ''hdfc''
     = [(Fl 2019, Fl 150, Fl 200), (Fl 2020, Fl 120, Fl 220), (Fl 2021, Fl 150, Fl 240),
        (Fl 2030, Fl 1, Fl 1)]"
  by code_simp

subsection \<open>Claim C10: the input frame\<close>

text \<open>
  Claim C10, as amended. \<open>optimize_expenditures\<close> returns when every row has two readable
  forecast values. When it returns, the result is a new frame and every frame of the
  store, the input among them, is as before; the result has as many rows as the input,
  its columns are the input's with \<open>Optimized_CapEx\<close> and \<open>Optimized_OpEx\<close> appended where
  the input does not have them, every cell of a column other than these two is unchanged,
  and the two columns hold floats that are finite whenever the row's forecast values are.
\<close>

theorem optimize_expenditures_frame:
  assumes "df < length h"
  shows "((\<forall>r \<in> set (rows (h ! df)). \<exists>p. read_forecast E (h ! df) r = Inr p) \<longrightarrow>
            (\<exists>h' out. optimize_expenditures_store E h df i a b g = (h', Inr out))) \<and>
         (optimize_expenditures_store E h df i a b g = (h', Inr out) \<longrightarrow>
            out \<noteq> df \<and> out < length h' \<and> take (length h) h' = h \<and> h' ! df = h ! df \<and>
            length (rows (h' ! out)) = length (rows (h ! df)) \<and>
            columns (h' ! out) =
              with_column (with_column (columns (h ! df)) ''Optimized_CapEx'') ''Optimized_OpEx'' \<and>
            (\<forall>k < length (rows (h ! df)). \<forall>c.
               c \<noteq> ''Optimized_CapEx'' \<longrightarrow> c \<noteq> ''Optimized_OpEx'' \<longrightarrow>
               (rows (h' ! out) ! k) c = (rows (h ! df) ! k) c) \<and>
            (\<forall>k < length (rows (h ! df)). \<exists>capex_opt opex_opt.
               (rows (h' ! out) ! k) ''Optimized_CapEx'' = Some (PyFloat capex_opt) \<and>
               (rows (h' ! out) ! k) ''Optimized_OpEx'' = Some (PyFloat opex_opt) \<and>
               (\<forall>pc po. read_forecast E (h ! df) (rows (h ! df) ! k) = Inr (pc, po) \<and>
                    isfinite pc \<and> isfinite po \<longrightarrow> isfinite capex_opt \<and> isfinite opex_opt)))"
proof (intro conjI impI)
  assume "\<forall>r \<in> set (rows (h ! df)). \<exists>p. read_forecast E (h ! df) r = Inr p"
  from optimize_expenditures_total [OF this] obtain f where
    "optimize_expenditures E (h ! df) i a b g = Inr f" by blast
  from store_success [OF this]
  show "\<exists>h' out. optimize_expenditures_store E h df i a b g = (h', Inr out)"
    by blast
next
  assume "optimize_expenditures_store E h df i a b g = (h', Inr out)"
  then obtain f where out: "out = length h" and h': "h' = h @ [f]"
    and f: "optimize_expenditures E (h ! df) i a b g = Inr f"
    by (auto simp: store_result)
  from out assms show "out \<noteq> df" by simp
  from out h' show "out < length h'" by simp
  from h' show "take (length h) h' = h" by simp
  from h' assms show "h' ! df = h ! df" by (simp add: nth_append)
  have hf: "h' ! out = f" by (simp add: h' out)
  from optimize_expenditures_Inr [OF f] obtain ps where
    ps: "map (read_forecast E (h ! df)) (rows (h ! df)) = map Inr ps" and
    cols: "columns f =
      with_column (with_column (columns (h ! df)) ''Optimized_CapEx'') ''Optimized_OpEx''" and
    len: "length (rows f) = length (rows (h ! df))" and
    row: "\<forall>k < length (rows (h ! df)). rows f ! k =
          (rows (h ! df) ! k)(''Optimized_CapEx'' \<mapsto> PyFloat (fst (optimize_point E i a b g (fst (ps ! k)) (snd (ps ! k)))),
                        ''Optimized_OpEx'' \<mapsto> PyFloat (snd (optimize_point E i a b g (fst (ps ! k)) (snd (ps ! k)))))"
    by blast
  from len show "length (rows (h' ! out)) = length (rows (h ! df))" by (simp add: hf)
  from cols show "columns (h' ! out) =
      with_column (with_column (columns (h ! df)) ''Optimized_CapEx'') ''Optimized_OpEx''"
    by (simp add: hf)
  from row show "\<forall>k < length (rows (h ! df)). \<forall>c.
      c \<noteq> ''Optimized_CapEx'' \<longrightarrow> c \<noteq> ''Optimized_OpEx'' \<longrightarrow>
      (rows (h' ! out) ! k) c = (rows (h ! df) ! k) c"
    by (simp add: hf)
  from ps have plen: "length ps = length (rows (h ! df))" by (metis length_map)
  show "\<forall>k < length (rows (h ! df)). \<exists>capex_opt opex_opt.
      (rows (h' ! out) ! k) ''Optimized_CapEx'' = Some (PyFloat capex_opt) \<and>
      (rows (h' ! out) ! k) ''Optimized_OpEx'' = Some (PyFloat opex_opt) \<and>
      (\<forall>pc po. read_forecast E (h ! df) (rows (h ! df) ! k) = Inr (pc, po) \<and>
           isfinite pc \<and> isfinite po \<longrightarrow> isfinite capex_opt \<and> isfinite opex_opt)"
  proof (intro allI impI)
    fix k assume k: "k < length (rows (h ! df))"
    with ps plen have rd: "read_forecast E (h ! df) (rows (h ! df) ! k) = Inr (ps ! k)"
      by (metis nth_map)
    show "\<exists>capex_opt opex_opt.
      (rows (h' ! out) ! k) ''Optimized_CapEx'' = Some (PyFloat capex_opt) \<and>
      (rows (h' ! out) ! k) ''Optimized_OpEx'' = Some (PyFloat opex_opt) \<and>
      (\<forall>pc po. read_forecast E (h ! df) (rows (h ! df) ! k) = Inr (pc, po) \<and>
           isfinite pc \<and> isfinite po \<longrightarrow> isfinite capex_opt \<and> isfinite opex_opt)"
      using row k rd optimize_point_finite [of "fst (ps ! k)" "snd (ps ! k)" E i a b g]
      by (auto simp: hf)
  qed
qed

theorem optimize_expenditures_frame_witness:
  "\<exists>h' out. optimize_expenditures_store demo_env [demo_forecast] 0 (Fl 0.03) (Fl 0.5) (Fl 0.5) (Fl 0.001)
        = (h', Inr out)
     \<and> out = 1 \<and> h' ! 0 = demo_forecast \<and> length (rows (h' ! out)) = 2
     \<and> columns (h' ! out) = [''Year'', ''Forecast_CapEx'', ''Forecast_OpEx'',
          ''Optimized_CapEx'', ''Optimized_OpEx'']
     \<and> (rows (h' ! out) ! 0) ''Forecast_CapEx'' = Some (PyFloat (Fl 100))
     \<and> (\<exists>capex_opt opex_opt.
          (rows (h' ! out) ! 0) ''Optimized_CapEx'' = Some (PyFloat capex_opt) \<and>
          (rows (h' ! out) ! 0) ''Optimized_OpEx'' = Some (PyFloat opex_opt) \<and>
          isfinite capex_opt \<and> isfinite opex_opt)"
proof -
  have valid: "0 < length [demo_forecast]" by simp
  have readable: "\<forall>r \<in> set (rows ([demo_forecast] ! 0)).
      \<exists>p. read_forecast demo_env ([demo_forecast] ! 0) r = Inr p"
    using demo_forecast_readable by simp
  note frame_thm = optimize_expenditures_frame [OF valid, of demo_env "Fl 0.03" "Fl 0.5" "Fl 0.5" "Fl 0.001"]
  from frame_thm readable obtain h' out where
    res: "optimize_expenditures_store demo_env [demo_forecast] 0 (Fl 0.03) (Fl 0.5) (Fl 0.5) (Fl 0.001)
        = (h', Inr out)"
    by blast
  have out: "out = 1" using res by (simp add: store_result)
  have rd: "read_forecast demo_env ([demo_forecast] ! 0) (rows ([demo_forecast] ! 0) ! 0)
      = Inr (Fl 100, Fl 200)"
    using read_demo_forecast(1) by simp
  have k: "0 < length (rows ([demo_forecast] ! 0))"
    by (simp add: demo_forecast_def)
  from frame_thm [of h' out] res have props:
    "h' ! 0 = [demo_forecast] ! 0"
    "length (rows (h' ! out)) = length (rows ([demo_forecast] ! 0))"
    "columns (h' ! out) =
       with_column (with_column (columns ([demo_forecast] ! 0)) ''Optimized_CapEx'') ''Optimized_OpEx''"
    "\<forall>k < length (rows ([demo_forecast] ! 0)). \<forall>c.
       c \<noteq> ''Optimized_CapEx'' \<longrightarrow> c \<noteq> ''Optimized_OpEx'' \<longrightarrow>
       (rows (h' ! out) ! k) c = (rows ([demo_forecast] ! 0) ! k) c"
    "\<forall>k < length (rows ([demo_forecast] ! 0)). \<exists>capex_opt opex_opt.
       (rows (h' ! out) ! k) ''Optimized_CapEx'' = Some (PyFloat capex_opt) \<and>
       (rows (h' ! out) ! k) ''Optimized_OpEx'' = Some (PyFloat opex_opt) \<and>
       (\<forall>pc po. read_forecast demo_env ([demo_forecast] ! 0) (rows ([demo_forecast] ! 0) ! k) = Inr (pc, po) \<and>
            isfinite pc \<and> isfinite po \<longrightarrow> isfinite capex_opt \<and> isfinite opex_opt)"
    by blast+
  from props(5) k rd obtain capex_opt opex_opt where fin:
    "(rows (h' ! out) ! 0) ''Optimized_CapEx'' = Some (PyFloat capex_opt)"
    "(rows (h' ! out) ! 0) ''Optimized_OpEx'' = Some (PyFloat opex_opt)"
    "isfinite capex_opt" "isfinite opex_opt"
    by force
  from props(4) k have keep: "(rows (h' ! out) ! 0) ''Forecast_CapEx'' = (rows demo_forecast ! 0) ''Forecast_CapEx''"
    by simp
  show ?thesis
    using res out props(1-3) keep fin
    by (auto simp: demo_forecast_def with_column_def forecast_row_def)
qed

text \<open>
  Claim C10 as stated fails: an input column named \<open>Optimized_CapEx\<close> is overwritten in the
  result, so not every input column keeps its values and no such column is added.
\<close>

theorem existing_column_overwritten:
  "series stale_forecast ''Optimized_CapEx'' = Inr [PyFloat (Fl 999)] \<and>
   stored_column
     (optimize_expenditures_store failing_env [stale_forecast] 0 (Fl 0.03) (Fl 0.5) (Fl 0.5) (Fl 0.001))
     ''Optimized_CapEx'' = Inr [PyFloat (Fl 80)]"
  by code_simp

end
